theory Spec2Isabelle
  imports Complex_Main "HOL-Library.Word"
begin

unbundle bit_operations_syntax

section \<open>Data model of the granular processor\<close>

text \<open>
  The development embeds \<^verbatim>\<open>supercell/dsp/granular_processor.cc\<close>. Values of
  the C type \<^verbatim>\<open>float\<close> are modelled as real numbers: every arithmetic
  expression of the source is kept as written, evaluated exactly. Fixed-width integers
  are words. Class members keep their names without the trailing underscore; a member
  whose name would clash with another field or an Isabelle keyword carries the suffix
  \<open>_m\<close> (\<open>in_m\<close>, \<open>out_m\<close>, \<open>fb_m\<close>, \<open>dry_wet_m\<close>).
\<close>

record 'a frame =
  l :: 'a
  r :: 'a

type_synonym FloatFrame = "real frame"
type_synonym ShortFrame = "16 word frame"

text \<open>
  Modelled from the spec: the enumeration \<^verbatim>\<open>PlaybackMode\<close> is declared in
  \<^verbatim>\<open>granular_processor.h\<close>, which is not among the sources. A mode is the
  numeric value of its enumerator, because \<^verbatim>\<open>LoadPersistentData\<close> stores a
  mode in a byte and casts a byte back to a mode. The enumerators are numbered from zero in
  the order in which the data model lists them, the sentinel last.
\<close>

type_synonym PlaybackMode = nat

definition PLAYBACK_MODE_GRANULAR :: PlaybackMode where
  "PLAYBACK_MODE_GRANULAR = 0"

definition PLAYBACK_MODE_STRETCH :: PlaybackMode where
  "PLAYBACK_MODE_STRETCH = 1"

definition PLAYBACK_MODE_LOOPING_DELAY :: PlaybackMode where
  "PLAYBACK_MODE_LOOPING_DELAY = 2"

definition PLAYBACK_MODE_SPECTRAL :: PlaybackMode where
  "PLAYBACK_MODE_SPECTRAL = 3"

definition PLAYBACK_MODE_SPECTRAL_CLOUD :: PlaybackMode where
  "PLAYBACK_MODE_SPECTRAL_CLOUD = 4"

definition PLAYBACK_MODE_OLIVERB :: PlaybackMode where
  "PLAYBACK_MODE_OLIVERB = 5"

definition PLAYBACK_MODE_RESONESTOR :: PlaybackMode where
  "PLAYBACK_MODE_RESONESTOR = 6"

definition PLAYBACK_MODE_KAMMERL :: PlaybackMode where
  "PLAYBACK_MODE_KAMMERL = 7"

definition PLAYBACK_MODE_LAST :: PlaybackMode where
  "PLAYBACK_MODE_LAST = 8"

lemmas PLAYBACK_MODE_defs =
  PLAYBACK_MODE_GRANULAR_def PLAYBACK_MODE_STRETCH_def PLAYBACK_MODE_LOOPING_DELAY_def
  PLAYBACK_MODE_SPECTRAL_def PLAYBACK_MODE_SPECTRAL_CLOUD_def PLAYBACK_MODE_OLIVERB_def
  PLAYBACK_MODE_RESONESTOR_def PLAYBACK_MODE_KAMMERL_def PLAYBACK_MODE_LAST_def

text \<open>
  The control snapshot \<^verbatim>\<open>Parameters\<close>. The nested structures
  \<^verbatim>\<open>granular\<close>, \<^verbatim>\<open>spectral\<close> and \<^verbatim>\<open>kammerl\<close> are
  flattened (\<open>granular_overlap\<close> is \<^verbatim>\<open>granular.overlap\<close>); the field
  \<^verbatim>\<open>size\<close> is \<open>size_p\<close>. Only the fields this file reads or writes appear.
\<close>

record Parameters =
  position :: real
  size_p :: real
  pitch :: real
  density :: real
  texture :: real
  dry_wet :: real
  stereo_spread :: real
  feedback :: real
  reverb :: real
  freeze :: bool
  trigger :: bool
  gate :: bool
  granular_use_deterministic_seed :: bool
  granular_overlap :: real
  granular_window_shape :: real
  spectral_quantization :: real
  spectral_refresh_rate :: real
  spectral_phase_randomization :: real
  spectral_warp :: real
  kammerl_pitch_mode :: real

text \<open>
  \<^verbatim>\<open>PersistentState\<close>: two write heads, the quality code and the spectral
  indicator, followed by the two bytes that pad the structure to twelve bytes.
\<close>

record PersistentState =
  write_head0 :: "32 word"
  write_head1 :: "32 word"
  quality :: "8 word"
  spectral :: "8 word"
  padding :: "16 word"

text \<open>
  Modelled from the spec: the ring buffer class (\<^verbatim>\<open>audio_buffer.h\<close>) is not
  among the sources. A ring buffer is represented by its write head, the only part of it
  that this file reads (\<^verbatim>\<open>head()\<close>) or sets (\<^verbatim>\<open>Resync\<close>): the head
  query returns the write head and a resynchronisation sets the head to the stored
  position. Sample contents live in raw memory and are reached only through collaborator
  calls.
\<close>

record AudioBuffer =
  write_head :: "32 word"

definition head :: "AudioBuffer \<Rightarrow> 32 word" where
  "head b = write_head b"

definition Resync :: "32 word \<Rightarrow> AudioBuffer \<Rightarrow> AudioBuffer" where
  "Resync h b = b\<lparr>write_head := h\<rparr>"

subsection \<open>Collaborator calls\<close>

text \<open>
  The synthesis engines, filters, resamplers and the allocator are collaborators whose
  code is elsewhere. Every call the processor makes to one of them is recorded, in order,
  with the method name of the source and the arguments the source passes. A pointer into
  one of the two raw regions is the region index and a byte offset.
\<close>

datatype engine =
    FbFilter nat | LpFilter nat | HpFilter nat
  | Buffer8 nat | Buffer16 nat
  | Player | WsPlayer | Looper | Kammerl | PhaseVocoder
  | Oliverb | Resonestor | Reverb | Diffuser | PitchShifter | Correlator
  | SrcDown | SrcUp | Allocator | Memory

datatype arg =
    AInt int
  | AFloat real
  | ABool bool
  | ANull
  | APtr nat nat
  | AName string
  | AParams Parameters
  | AFrames "FloatFrame list"
  | AWords "32 word list"

datatype call = Call engine string "arg list"

text \<open>The processor object, with the members that the source file uses.\<close>

record GranularProcessor =
  playback_mode :: PlaybackMode
  previous_playback_mode :: PlaybackMode
  num_channels :: int
  low_fidelity :: bool
  bypass :: bool
  silence :: bool
  reset_buffers :: bool
  reverb_dry_signal :: bool
  mute_in :: bool
  mute_out :: bool
  mute_in_fade :: real
  mute_out_fade :: real
  dry_wet_m :: real
  freeze_lp :: real
  parameters :: Parameters
  persistent_state :: PersistentState
  buffer_size :: "32 word \<times> 32 word"
  buffer_8 :: "AudioBuffer \<times> AudioBuffer"
  buffer_16 :: "AudioBuffer \<times> AudioBuffer"
  in_m :: "FloatFrame list"
  in_downsampled :: "FloatFrame list"
  out_m :: "FloatFrame list"
  out_downsampled :: "FloatFrame list"
  fb_m :: "FloatFrame list"
  calls :: "call list"

text \<open>
  What the collaborators and the absent tables and constants give back. Each result may
  depend on the call and on the whole state of the processor before it, which includes the
  record of all earlier calls.
\<close>

datatype lut = lut_inv_tanh | lut_xfade_in | lut_xfade_out

record world =
  frames_of :: "call \<Rightarrow> GranularProcessor \<Rightarrow> FloatFrame list"
  flag_of :: "call \<Rightarrow> GranularProcessor \<Rightarrow> bool"
  head_of :: "call \<Rightarrow> GranularProcessor \<Rightarrow> 32 word"
  Interpolate :: "lut \<Rightarrow> real \<Rightarrow> real \<Rightarrow> real"
  SemitonesToRatio :: "real \<Rightarrow> real"
  SoftLimit :: "real \<Rightarrow> real"
  SoftConvert :: "real \<Rightarrow> 16 word"
  LUT_INV_TANH_SIZE :: nat
  kDownsamplingFactor :: nat
  kMaxWSOLASize :: nat

definition log_calls :: "call list \<Rightarrow> GranularProcessor \<Rightarrow> GranularProcessor" where
  "log_calls cs s = s\<lparr>calls := calls s @ cs\<rparr>"

primrec callee :: "call \<Rightarrow> engine" where
  "callee (Call e m a) = e"

fun ring_buffer :: "engine \<Rightarrow> bool" where
  "ring_buffer (Buffer8 i) = True"
| "ring_buffer (Buffer16 i) = True"
| "ring_buffer e = False"

section \<open>The distortion shaper\<close>

text \<open>
  \<^verbatim>\<open>WarmDistortion(float* in, float parameter)\<close>; the result is the value left
  in \<^verbatim>\<open>*in\<close>.
\<close>

definition WarmDistortion :: "world \<Rightarrow> real \<Rightarrow> real \<Rightarrow> real" where
  "WarmDistortion W in0 parameter =
     (if parameter < 0.1 then in0
      else
        let kMaxDistf = 2.0;
            fac = kMaxDistf * parameter;
            amp = 1.0 - parameter * 0.45;
            smp = in0;
            smp = (1.0 + fac) * smp - fac * smp * smp * smp;
            sign = (if smp < 0 then - 1.0 else 1.0);
            tanh_loopup = max 0.0 (min 1.0 ((smp / 2.0) * sign));
            inv_tanh_smp =
              Interpolate W lut_inv_tanh tanh_loopup (real (LUT_INV_TANH_SIZE W) - 1) * sign;
            smp = smp + (inv_tanh_smp - smp) * fac;
            smp = smp * amp;
            smp = max (- 1.0) (min 1.0 smp)
        in smp)"

section \<open>Helpers from the absent headers\<close>

text \<open>
  Modelled from the spec: the macros \<^verbatim>\<open>ONE_POLE\<close> (the one-pole smoother of
  the mute and freeze coefficients) and \<^verbatim>\<open>CONSTRAIN\<close> (the range clamp) come
  from a library header that is not among the sources.
\<close>

definition ONE_POLE :: "real \<Rightarrow> real \<Rightarrow> real \<Rightarrow> real" where
  "ONE_POLE out0 in0 coefficient = out0 + coefficient * (in0 - out0)"

definition CONSTRAIN :: "real \<Rightarrow> real \<Rightarrow> real \<Rightarrow> real" where
  "CONSTRAIN x lo hi = (if x < lo then lo else if hi < x then hi else x)"

text \<open>
  Modelled from the spec: the inline accessors of \<^verbatim>\<open>granular_processor.h\<close>.
  The 8-bit store is the low-fidelity one, as \<^verbatim>\<open>PreparePersistentData\<close> and
  \<^verbatim>\<open>LoadPersistentData\<close> select \<^verbatim>\<open>buffer_8_\<close> by
  \<^verbatim>\<open>low_fidelity_\<close>. The quality code packs the channel count (bit 0 set for
  mono) and the fidelity (bit 1 set for low fidelity); setting the channel count or the
  fidelity to a different value raises the reset-buffers flag.
\<close>

definition resolution :: "GranularProcessor \<Rightarrow> int" where
  "resolution s = (if low_fidelity s then 8 else 16)"

definition sample_rate :: "world \<Rightarrow> GranularProcessor \<Rightarrow> real" where
  "sample_rate W s = 32000.0 / (if low_fidelity s then real (kDownsamplingFactor W) else 1)"

definition quality_code :: "GranularProcessor \<Rightarrow> 32 word" where
  "quality_code s =
     (let quality = 0;
          quality = (if num_channels s = 1 then quality OR 1 else quality);
          quality = (if low_fidelity s then quality OR 2 else quality)
      in quality)"

definition set_num_channels :: "int \<Rightarrow> GranularProcessor \<Rightarrow> GranularProcessor" where
  "set_num_channels n s =
     s\<lparr>reset_buffers := (reset_buffers s \<or> n \<noteq> num_channels s), num_channels := n\<rparr>"

definition set_low_fidelity :: "bool \<Rightarrow> GranularProcessor \<Rightarrow> GranularProcessor" where
  "set_low_fidelity b s =
     s\<lparr>reset_buffers := (reset_buffers s \<or> b \<noteq> low_fidelity s), low_fidelity := b\<rparr>"

definition set_quality :: "32 word \<Rightarrow> GranularProcessor \<Rightarrow> GranularProcessor" where
  "set_quality q s =
     set_low_fidelity (drop_bit 1 q \<noteq> 0)
       (set_num_channels (if q AND 1 \<noteq> 0 then 1 else 2) s)"

definition set_playback_mode :: "PlaybackMode \<Rightarrow> GranularProcessor \<Rightarrow> GranularProcessor" where
  "set_playback_mode m s = s\<lparr>playback_mode := m\<rparr>"

text \<open>
  \<open>blit n new old\<close> overwrites the first \<open>n\<close> elements of the array \<open>old\<close> with
  those of \<open>new\<close>, as \<^verbatim>\<open>copy\<close> and the in-place loops over
  \<^verbatim>\<open>i < size\<close> do; the array keeps its length.
\<close>

fun blit :: "nat \<Rightarrow> 'a list \<Rightarrow> 'a list \<Rightarrow> 'a list" where
  "blit (Suc n) (x # new) (y # old) = x # blit n new old"
| "blit n new old = old"

definition blit_l :: "nat \<Rightarrow> FloatFrame list \<Rightarrow> FloatFrame list \<Rightarrow> FloatFrame list" where
  "blit_l n new old = blit n (map (\<lambda>(x, y). y\<lparr>l := l x\<rparr>) (zip new old)) old"

definition blit_r :: "nat \<Rightarrow> FloatFrame list \<Rightarrow> FloatFrame list \<Rightarrow> FloatFrame list" where
  "blit_r n new old = blit n (map (\<lambda>(x, y). y\<lparr>r := r x\<rparr>) (zip new old)) old"

text \<open>
  An engine call that leaves frames in a buffer: the call is recorded and the first
  \<open>n\<close> frames of the buffer are what the engine produced.
\<close>

definition engine_writes ::
  "world \<Rightarrow> call \<Rightarrow> nat \<Rightarrow> GranularProcessor \<times> FloatFrame list \<Rightarrow>
   GranularProcessor \<times> FloatFrame list" where
  "engine_writes W c n sb =
     (case sb of (s, buf) \<Rightarrow> (log_calls [c] s, blit n (frames_of W c s) buf))"

definition engine_process ::
  "world \<Rightarrow> engine \<Rightarrow> nat \<Rightarrow> GranularProcessor \<times> FloatFrame list \<Rightarrow>
   GranularProcessor \<times> FloatFrame list" where
  "engine_process W e n sb =
     engine_writes W (Call e ''Process'' [AFrames (take n (snd sb)), AInt (int n)]) n sb"

definition nth2 :: "'a \<times> 'a \<Rightarrow> nat \<Rightarrow> 'a" where
  "nth2 p i = (if i = 0 then fst p else snd p)"

definition upd2 :: "nat \<Rightarrow> 'a \<Rightarrow> 'a \<times> 'a \<Rightarrow> 'a \<times> 'a" where
  "upd2 i v p = (if i = 0 then (v, snd p) else (fst p, v))"

section \<open>Filters and mode dispatch\<close>

definition ResetFilters :: "GranularProcessor \<Rightarrow> GranularProcessor" where
  "ResetFilters s =
     log_calls
       (concat (map (\<lambda>i. [Call (FbFilter i) ''Init'' [],
                           Call (LpFilter i) ''Init'' [],
                           Call (HpFilter i) ''Init'' []]) [0..<2])) s"

text \<open>
  The first part of \<^verbatim>\<open>ProcessGranular\<close>: the incoming audio is written to the
  recording buffer. The loop runs over the channels; an index beyond the two buffers of an
  array is an access outside it, and the result is \<open>None\<close>.
\<close>

definition WriteFade_call ::
  "GranularProcessor \<Rightarrow> FloatFrame list \<Rightarrow> nat \<Rightarrow> bool \<Rightarrow> nat \<Rightarrow> call" where
  "WriteFade_call s input sz play i =
     Call (if resolution s = 8 then Buffer8 i else Buffer16 i) ''WriteFade''
       [AFrames (take sz input), AInt (int i), AInt (int sz), AInt 2, ABool play]"

definition WriteFade_channel ::
  "world \<Rightarrow> FloatFrame list \<Rightarrow> nat \<Rightarrow> bool \<Rightarrow> nat \<Rightarrow> GranularProcessor \<Rightarrow>
   GranularProcessor" where
  "WriteFade_channel W input sz play i s =
     (let c = WriteFade_call s input sz play i;
          b = \<lparr>write_head = head_of W c s\<rparr>
      in log_calls [c]
           (if resolution s = 8 then s\<lparr>buffer_8 := upd2 i b (buffer_8 s)\<rparr>
            else s\<lparr>buffer_16 := upd2 i b (buffer_16 s)\<rparr>))"

primrec WriteFade_loop ::
  "world \<Rightarrow> FloatFrame list \<Rightarrow> nat \<Rightarrow> bool \<Rightarrow> nat list \<Rightarrow> GranularProcessor \<Rightarrow>
   GranularProcessor option" where
  "WriteFade_loop W input sz play [] s = Some s"
| "WriteFade_loop W input sz play (i # is) s =
     (if 2 \<le> i then None
      else WriteFade_loop W input sz play is (WriteFade_channel W input sz play i s))"

definition write_input ::
  "world \<Rightarrow> FloatFrame list \<Rightarrow> nat \<Rightarrow> GranularProcessor \<Rightarrow> GranularProcessor option" where
  "write_input W input sz s =
     (if playback_mode s \<noteq> PLAYBACK_MODE_SPECTRAL \<and>
         playback_mode s \<noteq> PLAYBACK_MODE_SPECTRAL_CLOUD \<and>
         playback_mode s \<noteq> PLAYBACK_MODE_RESONESTOR
      then
        let play = (\<not> freeze (parameters s) \<or>
                    playback_mode s = PLAYBACK_MODE_OLIVERB \<or>
                    playback_mode s = PLAYBACK_MODE_KAMMERL)
        in WriteFade_loop W input sz play [0..<nat (num_channels s)] s
      else Some s)"

text \<open>An engine's \<^verbatim>\<open>Play\<close> on the active ring buffers.\<close>

definition Play ::
  "world \<Rightarrow> engine \<Rightarrow> Parameters \<Rightarrow> nat \<Rightarrow> GranularProcessor \<times> FloatFrame list \<Rightarrow>
   GranularProcessor \<times> FloatFrame list" where
  "Play W e p sz sb =
     engine_writes W
       (Call e ''Play'' [AInt (if resolution (fst sb) = 8 then 8 else 16), AParams p,
                         AInt (int sz)]) sz sb"

text \<open>
  The branches of the \<^verbatim>\<open>switch\<close> in \<^verbatim>\<open>ProcessGranular\<close>. The
  pitch quantisation of the GRANULAR branch is compiled only when
  \<^verbatim>\<open>CLOUDS_QUANTIZE_SEMITONES\<close> is defined and is left out.
\<close>

definition granular_meta :: "Parameters \<Rightarrow> Parameters" where
  "granular_meta p =
     (let p = p\<lparr>granular_use_deterministic_seed := (density p < 0.5)\<rparr>;
          p = (if 0.53 \<le> density p
               then p\<lparr>granular_overlap := (density p - 0.53) * 2.12\<rparr>
               else if density p \<le> 0.47
               then p\<lparr>granular_overlap := (0.47 - density p) * 2.12\<rparr>
               else p\<lparr>granular_overlap := 0.0\<rparr>);
          p = p\<lparr>granular_window_shape :=
                  (if texture p < 0.75 then texture p * 1.333 else 1.0)\<rparr>
      in p)"

definition case_GRANULAR ::
  "world \<Rightarrow> nat \<Rightarrow> GranularProcessor \<times> FloatFrame list \<Rightarrow>
   GranularProcessor \<times> FloatFrame list" where
  "case_GRANULAR W sz sb =
     (case sb of (s, output) \<Rightarrow>
        let s = s\<lparr>parameters := granular_meta (parameters s)\<rparr>
        in Play W Player (parameters s) sz (s, output))"

definition spectral_meta :: "Parameters \<Rightarrow> Parameters" where
  "spectral_meta p =
     (let p = p\<lparr>spectral_quantization := texture p\<rparr>;
          p = p\<lparr>spectral_refresh_rate := 0.01 + 0.99 * density p\<rparr>;
          warp = size_p p - 0.5;
          p = p\<lparr>spectral_warp := 4.0 * warp * warp * warp + 0.5\<rparr>;
          randomization = density p - 0.5;
          randomization = randomization * (randomization * 4.2);
          randomization = randomization - 0.05;
          randomization = CONSTRAIN randomization 0.0 1.0
      in p\<lparr>spectral_phase_randomization := randomization\<rparr>)"

definition PhaseVocoder_Process ::
  "world \<Rightarrow> FloatFrame list \<Rightarrow> nat \<Rightarrow> GranularProcessor \<times> FloatFrame list \<Rightarrow>
   GranularProcessor \<times> FloatFrame list" where
  "PhaseVocoder_Process W input sz sb =
     engine_writes W
       (Call PhaseVocoder ''Process''
          [AParams (parameters (fst sb)), AFrames (take sz input), AInt (int sz)]) sz sb"

definition case_SPECTRAL ::
  "world \<Rightarrow> FloatFrame list \<Rightarrow> nat \<Rightarrow> GranularProcessor \<times> FloatFrame list \<Rightarrow>
   GranularProcessor \<times> FloatFrame list" where
  "case_SPECTRAL W input sz sb =
     (case sb of (s, output) \<Rightarrow>
        PhaseVocoder_Process W input sz
          (s\<lparr>parameters := spectral_meta (parameters s)\<rparr>, output))"

definition case_SPECTRAL_CLOUD ::
  "world \<Rightarrow> FloatFrame list \<Rightarrow> nat \<Rightarrow> GranularProcessor \<times> FloatFrame list \<Rightarrow>
   GranularProcessor \<times> FloatFrame list" where
  "case_SPECTRAL_CLOUD W input sz sb =
     (case PhaseVocoder_Process W input sz sb of (s, output) \<Rightarrow>
        if num_channels s = 1
        then (s, blit sz (map (\<lambda>f. f\<lparr>r := l f\<rparr>) output) output)
        else (s, output))"

text \<open>
  The pitch-shift wet amount as \<^verbatim>\<open>ProcessGranular\<close> computes it for the
  reverb of the OLIVERB mode.
\<close>

definition oliverb_pitch_shift_wet :: "real \<Rightarrow> real" where
  "oliverb_pitch_shift_wet x =
     (let limit = 0.7; slew = 0.4
      in if x < - limit then 1.0
         else if x < - limit + slew then 1.0 - (x + limit) / slew
         else if x < limit - slew then 0.0
         else if x < limit then 1.0 + (x - limit) / slew
         else 1.0)"

definition oliverb_predelay :: "world \<Rightarrow> GranularProcessor \<Rightarrow> Parameters" where
  "oliverb_predelay W s =
     \<lparr>position = (if flag_of W (Call WsPlayer ''synchronized'' []) s
                  then position (parameters s)
                  else position (parameters s) * 0.25),
      size_p = 0.1,
      pitch = 0.0,
      density = 0.0,
      texture = 0.5,
      dry_wet = 1.0,
      stereo_spread = 0.0,
      feedback = 0.0,
      reverb = 0.0,
      freeze = False,
      trigger = trigger (parameters s),
      gate = False,
      granular_use_deterministic_seed = False,
      granular_overlap = 0,
      granular_window_shape = 0,
      spectral_quantization = 0,
      spectral_refresh_rate = 0,
      spectral_phase_randomization = 0,
      spectral_warp = 0,
      kammerl_pitch_mode = 0\<rparr>"

definition oliverb_settings :: "world \<Rightarrow> Parameters \<Rightarrow> call list" where
  "oliverb_settings W q =
     [Call Oliverb ''set_diffusion'' [AFloat (0.3 + 0.5 * stereo_spread q)],
      Call Oliverb ''set_size'' [AFloat (0.05 + 0.94 * size_p q)],
      Call Oliverb ''set_mod_rate'' [AFloat (feedback q)],
      Call Oliverb ''set_mod_amount'' [AFloat (reverb q * 300.0)],
      Call Oliverb ''set_ratio'' [AFloat (SemitonesToRatio W (pitch q))],
      Call Oliverb ''set_pitch_shift_amount'' [AFloat (oliverb_pitch_shift_wet (pitch q))]] @
     (if freeze q
      then [Call Oliverb ''set_input_gain'' [AFloat 0.0],
            Call Oliverb ''set_decay'' [AFloat 1.0],
            Call Oliverb ''set_lp'' [AFloat 1.0],
            Call Oliverb ''set_hp'' [AFloat 0.0]]
      else
        let lp = (if texture q < 0.5 then texture q * 2.0 else 1.0);
            hp = (if 0.5 < texture q then (texture q - 0.5) * 2.0 else 0.0)
        in [Call Oliverb ''set_decay''
              [AFloat (density q * 1.3 + 0.15 * \<bar>pitch q\<bar> / 24.0)],
            Call Oliverb ''set_input_gain'' [AFloat 0.5],
            Call Oliverb ''set_lp'' [AFloat (0.03 + 0.9 * lp)],
            Call Oliverb ''set_hp'' [AFloat (0.01 + 0.2 * hp)]])"

definition case_OLIVERB ::
  "world \<Rightarrow> nat \<Rightarrow> GranularProcessor \<times> FloatFrame list \<Rightarrow>
   GranularProcessor \<times> FloatFrame list" where
  "case_OLIVERB W sz sb =
     (case Play W WsPlayer (oliverb_predelay W (fst sb)) sz sb of (s, output) \<Rightarrow>
        engine_process W Oliverb sz
          (log_calls (oliverb_settings W (parameters s)) s, output))"

definition resonestor_settings :: "Parameters \<Rightarrow> call list" where
  "resonestor_settings q =
     [Call Resonestor ''set_pitch'' [AFloat (pitch q)],
      Call Resonestor ''set_chord'' [AFloat (size_p q)],
      Call Resonestor ''set_trigger'' [ABool (trigger q)],
      Call Resonestor ''set_burst_damp'' [AFloat (position q)],
      Call Resonestor ''set_burst_comb'' [AFloat (1.0 - position q)],
      Call Resonestor ''set_burst_duration'' [AFloat (1.0 - position q)],
      Call Resonestor ''set_spread_amount'' [AFloat (reverb q)],
      Call Resonestor ''set_stereo''
        [AFloat (if stereo_spread q < 0.5 then 0.0 else (stereo_spread q - 0.5) * 2.0)],
      Call Resonestor ''set_separation''
        [AFloat (if 0.5 < stereo_spread q then 0.0 else (0.5 - stereo_spread q) * 2.0)],
      Call Resonestor ''set_freeze'' [ABool (freeze q)],
      Call Resonestor ''set_harmonicity'' [AFloat (1.0 - (feedback q * 0.5))],
      Call Resonestor ''set_distortion'' [AFloat (dry_wet q)]] @
     (let t = texture q
      in if t < 0.5
         then
           let l0 = 1.0 - (0.5 - t) / 0.5;
               l0 = l0 * (1.0 - 0.08) + 0.08
           in [Call Resonestor ''set_narrow'' [AFloat 0.001],
               Call Resonestor ''set_damp'' [AFloat (l0 * l0)]]
         else
           let n = (t - 0.5) / 0.5 * 1.35;
               n = n * (n * n * n)
           in [Call Resonestor ''set_damp'' [AFloat 1.0],
               Call Resonestor ''set_narrow'' [AFloat (0.001 + n * n * 0.6)]]) @
     (let d = (density q - 0.05) / 0.9;
          d = (if d < 0.0 then 0.0 else d);
          d = d * (d * d);
          d = d * (d * d);
          d = d * (d * d)
      in [Call Resonestor ''set_feedback'' [AFloat (d * 20.0)]])"

definition case_RESONESTOR ::
  "world \<Rightarrow> FloatFrame list \<Rightarrow> nat \<Rightarrow> GranularProcessor \<times> FloatFrame list \<Rightarrow>
   GranularProcessor \<times> FloatFrame list" where
  "case_RESONESTOR W input sz sb =
     (case sb of (s, output) \<Rightarrow>
        engine_process W Resonestor sz
          (log_calls (resonestor_settings (parameters s)) s, blit sz input output))"

definition dispatch ::
  "world \<Rightarrow> FloatFrame list \<Rightarrow> nat \<Rightarrow> GranularProcessor \<times> FloatFrame list \<Rightarrow>
   GranularProcessor \<times> FloatFrame list" where
  "dispatch W input sz sb =
     (let m = playback_mode (fst sb)
      in if m = PLAYBACK_MODE_GRANULAR then case_GRANULAR W sz sb
         else if m = PLAYBACK_MODE_STRETCH
           then Play W WsPlayer (parameters (fst sb)) sz sb
         else if m = PLAYBACK_MODE_LOOPING_DELAY
           then Play W Looper (parameters (fst sb)) sz sb
         else if m = PLAYBACK_MODE_SPECTRAL then case_SPECTRAL W input sz sb
         else if m = PLAYBACK_MODE_SPECTRAL_CLOUD then case_SPECTRAL_CLOUD W input sz sb
         else if m = PLAYBACK_MODE_OLIVERB then case_OLIVERB W sz sb
         else if m = PLAYBACK_MODE_RESONESTOR then case_RESONESTOR W input sz sb
         else if m = PLAYBACK_MODE_KAMMERL
           then Play W Kammerl (parameters (fst sb)) sz sb
         else sb)"

definition ProcessGranular ::
  "world \<Rightarrow> FloatFrame list \<Rightarrow> FloatFrame list \<Rightarrow> nat \<Rightarrow> GranularProcessor \<Rightarrow>
   (GranularProcessor \<times> FloatFrame list) option" where
  "ProcessGranular W input output sz s =
     (case write_input W input sz s of
        None \<Rightarrow> None
      | Some s1 \<Rightarrow> Some (dispatch W input sz (s1, output)))"

section \<open>The per-block pipeline\<close>

text \<open>
  \<^verbatim>\<open>Process\<close> is embedded stage by stage, in the order of the source. The
  block size is \<open>sz\<close>. The local variables that the source carries from one stage to a
  later one (\<^verbatim>\<open>feedback\<close>, the two mute levels and the two original fade
  values) are passed explicitly.
\<close>

definition to_float :: "ShortFrame \<Rightarrow> FloatFrame" where
  "to_float f =
     \<lparr>l = real_of_int (sint (l f)) / 32768.0, r = real_of_int (sint (r f)) / 32768.0\<rparr>"

definition convert_input ::
  "ShortFrame list \<Rightarrow> nat \<Rightarrow> GranularProcessor \<Rightarrow> GranularProcessor" where
  "convert_input input sz s = s\<lparr>in_m := blit sz (map to_float input) (in_m s)\<rparr>"

primrec mute_loop :: "real \<Rightarrow> real \<Rightarrow> FloatFrame list \<Rightarrow> real \<times> FloatFrame list" where
  "mute_loop fade level [] = (fade, [])"
| "mute_loop fade level (x # xs) =
     (let fade = ONE_POLE fade level 0.01;
          x = \<lparr>l = l x * fade, r = r x * fade\<rparr>
      in case mute_loop fade level xs of (fade', ys) \<Rightarrow> (fade', x # ys))"

definition mute_level :: "bool \<Rightarrow> real" where
  "mute_level m = (if m then 0.0 else 1.0)"

definition mute_input :: "nat \<Rightarrow> GranularProcessor \<Rightarrow> GranularProcessor" where
  "mute_input sz s =
     (case mute_loop (mute_in_fade s) (mute_level (mute_in s)) (take sz (in_m s)) of
        (fade, xs) \<Rightarrow> s\<lparr>mute_in_fade := fade, in_m := blit sz xs (in_m s)\<rparr>)"

definition mixdown :: "nat \<Rightarrow> GranularProcessor \<Rightarrow> GranularProcessor" where
  "mixdown sz s =
     (if num_channels s = 1
      then s\<lparr>in_m :=
               blit sz
                 (map (\<lambda>f.
                    let xfade = (if playback_mode s = PLAYBACK_MODE_LOOPING_DELAY \<or>
                                    playback_mode s = PLAYBACK_MODE_STRETCH
                                 then stereo_spread (parameters s) else 0.5);
                        a = l f * (1.0 - xfade) + r f * xfade
                    in \<lparr>l = a, r = a\<rparr>) (in_m s))
                 (in_m s)\<rparr>
      else s)"

text \<open>
  A filter processes one channel of a frame array in place (stride 2); \<open>left\<close> selects
  the channel.
\<close>

definition filter_process ::
  "world \<Rightarrow> engine \<Rightarrow> string \<Rightarrow> bool \<Rightarrow> nat \<Rightarrow> GranularProcessor \<times> FloatFrame list \<Rightarrow>
   GranularProcessor \<times> FloatFrame list" where
  "filter_process W e filter_mode left sz sb =
     (case sb of (s, buf) \<Rightarrow>
        let c = Call e (''Process<'' @ filter_mode @ ''>'')
                  [AFrames (take sz buf), AInt (if left then 0 else 1), AInt (int sz), AInt 2]
        in (log_calls [c] s,
            (if left then blit_l else blit_r) sz (frames_of W c s) buf))"

text \<open>The feedback stage: the amount, the high-pass filtering, the blend.\<close>

definition feedback_amount :: "world \<Rightarrow> GranularProcessor \<Rightarrow> real" where
  "feedback_amount W s =
     (if playback_mode s = PLAYBACK_MODE_KAMMERL \<and>
         flag_of W (Call Kammerl ''isSlicePlaybackActive'' []) s
      then reverb (parameters s) else 0.0)"

definition shared_feedback :: "GranularProcessor \<Rightarrow> bool" where
  "shared_feedback s =
     (playback_mode s \<noteq> PLAYBACK_MODE_OLIVERB \<and>
      playback_mode s \<noteq> PLAYBACK_MODE_RESONESTOR \<and>
      playback_mode s \<noteq> PLAYBACK_MODE_KAMMERL \<and>
      playback_mode s \<noteq> PLAYBACK_MODE_SPECTRAL_CLOUD)"

definition feedback_filter :: "world \<Rightarrow> nat \<Rightarrow> GranularProcessor \<Rightarrow> GranularProcessor" where
  "feedback_filter W sz s =
     (let s = s\<lparr>freeze_lp :=
                 ONE_POLE (freeze_lp s) (if freeze (parameters s) then 1.0 else 0.0) 0.0005\<rparr>;
          fb = feedback (parameters s);
          cutoff = (20.0 + 100.0 * fb * fb) / sample_rate W s;
          s = log_calls
                [Call (FbFilter 0) ''set_f_q<FREQUENCY_FAST>'' [AFloat cutoff, AFloat 1.0],
                 Call (FbFilter 1) ''set'' [AName ''fb_filter_[0]'']] s
      in case filter_process W (FbFilter 0) ''FILTER_MODE_HIGH_PASS'' True sz (s, fb_m s) of
           (s, buf) \<Rightarrow>
             (case filter_process W (FbFilter 1) ''FILTER_MODE_HIGH_PASS'' False sz (s, buf) of
                (s, buf) \<Rightarrow> s\<lparr>fb_m := buf\<rparr>))"

definition feedback_blend ::
  "world \<Rightarrow> real \<Rightarrow> nat \<Rightarrow> GranularProcessor \<Rightarrow> GranularProcessor" where
  "feedback_blend W fb_gain sz s =
     s\<lparr>in_m :=
         blit sz
           (map (\<lambda>(x, f).
              \<lparr>l = l x + fb_gain * (SoftLimit W (fb_gain * 1.4 * l f + l x) - l x),
               r = r x + fb_gain * (SoftLimit W (fb_gain * 1.4 * r f + r x) - r x)\<rparr>)
              (zip (in_m s) (fb_m s)))
           (in_m s)\<rparr>"

definition apply_feedback ::
  "world \<Rightarrow> nat \<Rightarrow> GranularProcessor \<Rightarrow> GranularProcessor \<times> real" where
  "apply_feedback W sz s =
     (let fb = feedback_amount W s;
          sf = (if shared_feedback s
                then (feedback_filter W sz s, feedback (parameters s))
                else (s, fb));
          fb_gain = snd sf * (1.0 - freeze_lp (fst sf))
      in (feedback_blend W fb_gain sz (fst sf), snd sf))"

text \<open>The optional low-fidelity path around \<^verbatim>\<open>ProcessGranular\<close>.\<close>

definition run_engines ::
  "world \<Rightarrow> nat \<Rightarrow> GranularProcessor \<Rightarrow> GranularProcessor option" where
  "run_engines W sz s =
     (if low_fidelity s
      then
        let downsampled_size = sz div kDownsamplingFactor W
        in case engine_writes W
                  (Call SrcDown ''Process'' [AFrames (take sz (in_m s)), AInt (int sz)])
                  downsampled_size (s, in_downsampled s) of
             (s, ind) \<Rightarrow>
               (case ProcessGranular W ind (out_downsampled s) downsampled_size
                       (s\<lparr>in_downsampled := ind\<rparr>) of
                  None \<Rightarrow> None
                | Some (s, outd) \<Rightarrow>
                    (case engine_writes W
                            (Call SrcUp ''Process''
                               [AFrames (take downsampled_size outd),
                                AInt (int downsampled_size)])
                            (downsampled_size * kDownsamplingFactor W)
                            (s\<lparr>out_downsampled := outd\<rparr>, out_m s) of
                       (s, out) \<Rightarrow> Some (s\<lparr>out_m := out\<rparr>)))
      else
        (case ProcessGranular W (in_m s) (out_m s) sz s of
           None \<Rightarrow> None
         | Some (s, out) \<Rightarrow> Some (s\<lparr>out_m := out\<rparr>)))"

text \<open>Post-processing on \<^verbatim>\<open>out_\<close>.\<close>

definition on_out :: "world \<Rightarrow> engine \<Rightarrow> nat \<Rightarrow> GranularProcessor \<Rightarrow> GranularProcessor" where
  "on_out W e sz s =
     (case engine_process W e sz (s, out_m s) of (s', out) \<Rightarrow> s'\<lparr>out_m := out\<rparr>)"

definition diffusion :: "world \<Rightarrow> nat \<Rightarrow> GranularProcessor \<Rightarrow> GranularProcessor" where
  "diffusion W sz s =
     (if playback_mode s \<noteq> PLAYBACK_MODE_SPECTRAL \<and>
         playback_mode s \<noteq> PLAYBACK_MODE_SPECTRAL_CLOUD \<and>
         playback_mode s \<noteq> PLAYBACK_MODE_OLIVERB \<and>
         playback_mode s \<noteq> PLAYBACK_MODE_RESONESTOR \<and>
         playback_mode s \<noteq> PLAYBACK_MODE_KAMMERL
      then
        let tx = texture (parameters s);
            amount = (if playback_mode s = PLAYBACK_MODE_GRANULAR
                      then (if 0.75 < tx then (tx - 0.75) * 4.0 else 0.0)
                      else density (parameters s))
        in on_out W Diffuser sz (log_calls [Call Diffuser ''set_amount'' [AFloat amount]] s)
      else s)"

text \<open>
  The pitch-shift wet amount as \<^verbatim>\<open>Process\<close> computes it for the pitch shifter
  of the looping delay.
\<close>

definition looper_pitch_shift_wet :: "real \<Rightarrow> real" where
  "looper_pitch_shift_wet x =
     (let limit = 0.7; slew = 0.4
      in if x < - limit then 1.0
         else if x < - limit + slew then 1.0 - (x + limit) / slew
         else if x < limit - slew then 0.0
         else if x < limit then 1.0 + (x - limit) / slew
         else 1.0)"

definition pitch_shift :: "world \<Rightarrow> nat \<Rightarrow> GranularProcessor \<Rightarrow> GranularProcessor" where
  "pitch_shift W sz s =
     (if (playback_mode s = PLAYBACK_MODE_LOOPING_DELAY \<and>
          (\<not> freeze (parameters s) \<or> flag_of W (Call Looper ''synchronized'' []) s)) \<or>
         playback_mode s = PLAYBACK_MODE_SPECTRAL_CLOUD
      then
        let s1 = log_calls
                   [Call PitchShifter ''set_ratio''
                      [AFloat (SemitonesToRatio W (pitch (parameters s)))],
                    Call PitchShifter ''set_size'' [AFloat (size_p (parameters s))]] s;
            s2 = (if PLAYBACK_MODE_SPECTRAL_CLOUD \<noteq> playback_mode s
                  then log_calls
                         [Call PitchShifter ''set_dry_wet''
                            [AFloat (looper_pitch_shift_wet (pitch (parameters s)))]] s1
                  else log_calls [Call PitchShifter ''set_dry_wet'' [AFloat 1.0]] s1)
        in on_out W PitchShifter sz s2
      else s)"

definition apply_filters :: "world \<Rightarrow> nat \<Rightarrow> GranularProcessor \<Rightarrow> GranularProcessor" where
  "apply_filters W sz s =
     (if playback_mode s = PLAYBACK_MODE_LOOPING_DELAY \<or>
         playback_mode s = PLAYBACK_MODE_STRETCH
      then
        let cutoff = texture (parameters s);
            lp_cutoff = 0.5 * SemitonesToRatio W
                          ((if cutoff < 0.5 then cutoff - 0.5 else 0.0) * 216.0);
            hp_cutoff = 0.25 * SemitonesToRatio W
                          ((if cutoff < 0.5 then - 0.5 else cutoff - 1.0) * 216.0);
            lp_cutoff = CONSTRAIN lp_cutoff 0.0 0.499;
            hp_cutoff = CONSTRAIN hp_cutoff 0.0 0.499;
            sb = (log_calls
                    [Call (LpFilter 0) ''set_f_q<FREQUENCY_FAST>''
                       [AFloat lp_cutoff, AFloat 0.9]] s, out_m s);
            sb = filter_process W (LpFilter 0) ''FILTER_MODE_LOW_PASS'' True sz sb;
            sb = (log_calls [Call (LpFilter 1) ''set'' [AName ''lp_filter_[0]'']] (fst sb),
                  snd sb);
            sb = filter_process W (LpFilter 1) ''FILTER_MODE_LOW_PASS'' False sz sb;
            sb = (log_calls
                    [Call (HpFilter 0) ''set_f_q<FREQUENCY_FAST>''
                       [AFloat hp_cutoff, AFloat 0.9]] (fst sb), snd sb);
            sb = filter_process W (HpFilter 0) ''FILTER_MODE_HIGH_PASS'' True sz sb;
            sb = (log_calls [Call (HpFilter 1) ''set'' [AName ''hp_filter_[0]'']] (fst sb),
                  snd sb);
            sb = filter_process W (HpFilter 1) ''FILTER_MODE_HIGH_PASS'' False sz sb
        in (fst sb)\<lparr>out_m := snd sb\<rparr>
      else s)"

definition feedback_snapshot :: "nat \<Rightarrow> GranularProcessor \<Rightarrow> GranularProcessor" where
  "feedback_snapshot sz s = s\<lparr>fb_m := blit sz (out_m s) (fb_m s)\<rparr>"

definition mute_output :: "nat \<Rightarrow> GranularProcessor \<Rightarrow> GranularProcessor" where
  "mute_output sz s =
     (case mute_loop (mute_out_fade s) (mute_level (mute_out s)) (take sz (out_m s)) of
        (fade, xs) \<Rightarrow> s\<lparr>mute_out_fade := fade, out_m := blit sz xs (out_m s)\<rparr>)"

definition reverb_modes :: "GranularProcessor \<Rightarrow> bool" where
  "reverb_modes s =
     (playback_mode s \<noteq> PLAYBACK_MODE_OLIVERB \<and>
      playback_mode s \<noteq> PLAYBACK_MODE_RESONESTOR \<and>
      playback_mode s \<noteq> PLAYBACK_MODE_KAMMERL)"

definition apply_reverb ::
  "world \<Rightarrow> real \<Rightarrow> nat \<Rightarrow> GranularProcessor \<Rightarrow> GranularProcessor" where
  "apply_reverb W fb sz s =
     (let reverb_amount = reverb (parameters s)
      in on_out W Reverb sz
           (log_calls
              [Call Reverb ''set_amount'' [AFloat (reverb_amount * 0.54)],
               Call Reverb ''set_diffusion'' [AFloat 0.7],
               Call Reverb ''set_time'' [AFloat (0.35 + 0.63 * reverb_amount)],
               Call Reverb ''set_input_gain'' [AFloat 0.2],
               Call Reverb ''set_lp'' [AFloat (0.6 + 0.37 * fb)]] s))"

text \<open>
  Modelled from the spec: the dry/wet parameter is interpolated over the block by a
  library class that is not among the sources; it starts from the member
  \<^verbatim>\<open>dry_wet_\<close>, moves by equal increments towards the parameter and leaves its
  last value in the member.
\<close>

primrec crossfade_loop ::
  "world \<Rightarrow> bool \<Rightarrow> real \<Rightarrow> real \<Rightarrow> real \<Rightarrow> real \<times> real \<times> real \<Rightarrow>
   (ShortFrame \<times> FloatFrame) list \<Rightarrow> real \<times> FloatFrame list" where
  "crossfade_loop W kammerl increment mute_level_out mute_level_in acc [] = (fst acc, [])"
| "crossfade_loop W kammerl increment mute_level_out mute_level_in acc (xy # xs) =
     (case acc of (v, mute_out_fade0, mute_in_fade0) \<Rightarrow>
        let v = v + increment;
            dw = (if kammerl then 1.0 else v);
            fade_in = Interpolate W lut_xfade_in dw 16.0;
            fade_out = Interpolate W lut_xfade_out dw 16.0;
            lv = real_of_int (sint (l (fst xy))) / 32768.0;
            rv = real_of_int (sint (r (fst xy))) / 32768.0;
            mo = ONE_POLE mute_out_fade0 mute_level_out 0.01;
            mi = ONE_POLE mute_in_fade0 mute_level_in 0.01;
            fade_out = fade_out * (mi * mo);
            post_gain = 1.2;
            y = \<lparr>l = (lv * fade_out) + (l (snd xy) * post_gain * fade_in),
                 r = (rv * fade_out) + (r (snd xy) * post_gain * fade_in)\<rparr>
        in case crossfade_loop W kammerl increment mute_level_out mute_level_in
                  (v, mo, mi) xs of
             (v', ys) \<Rightarrow> (v', y # ys))"

definition crossfade ::
  "world \<Rightarrow> ShortFrame list \<Rightarrow> real \<Rightarrow> real \<Rightarrow> nat \<Rightarrow> GranularProcessor \<Rightarrow>
   GranularProcessor" where
  "crossfade W input original_mute_in_fade original_mute_out_fade sz s =
     (if playback_mode s \<noteq> PLAYBACK_MODE_RESONESTOR
      then
        case crossfade_loop W (playback_mode s = PLAYBACK_MODE_KAMMERL)
               ((dry_wet (parameters s) - dry_wet_m s) / real sz)
               (mute_level (mute_out s)) (mute_level (mute_in s))
               (dry_wet_m s, original_mute_out_fade, original_mute_in_fade)
               (zip (take sz input) (out_m s)) of
          (v, ys) \<Rightarrow> s\<lparr>dry_wet_m := v, out_m := blit sz ys (out_m s)\<rparr>
      else s)"

definition distort :: "world \<Rightarrow> nat \<Rightarrow> GranularProcessor \<Rightarrow> GranularProcessor" where
  "distort W sz s =
     (if playback_mode s = PLAYBACK_MODE_SPECTRAL_CLOUD
      then s\<lparr>out_m :=
               blit sz
                 (map (\<lambda>f.
                    \<lparr>l = WarmDistortion W (l f) (kammerl_pitch_mode (parameters s)),
                     r = WarmDistortion W (r f) (kammerl_pitch_mode (parameters s))\<rparr>)
                    (out_m s))
                 (out_m s)\<rparr>
      else s)"

definition convert_output ::
  "world \<Rightarrow> nat \<Rightarrow> GranularProcessor \<Rightarrow> ShortFrame list \<Rightarrow> ShortFrame list" where
  "convert_output W sz s output =
     blit sz (map (\<lambda>f. \<lparr>l = SoftConvert W (l f), r = SoftConvert W (r f)\<rparr>) (out_m s)) output"

text \<open>
  \<^verbatim>\<open>Process(input, output, size)\<close> returns the processor and the output array.
  The arrays are lists; a block size larger than an array that the taken path indexes is
  an access outside it, and the result is \<open>None\<close>.
\<close>

definition Process ::
  "world \<Rightarrow> ShortFrame list \<Rightarrow> ShortFrame list \<Rightarrow> nat \<Rightarrow> GranularProcessor \<Rightarrow>
   (GranularProcessor \<times> ShortFrame list) option" where
  "Process W input output sz s =
     (if bypass s
      then (if sz \<le> length input \<and> sz \<le> length output
            then Some (s, blit sz input output) else None)
      else if silence s \<or> reset_buffers s \<or> previous_playback_mode s \<noteq> playback_mode s
      then (if sz \<le> length output
            then Some (s, blit sz (replicate sz \<lparr>l = 0, r = 0\<rparr>) output) else None)
      else if \<not> (sz \<le> length input \<and> sz \<le> length output \<and> sz \<le> length (in_m s) \<and>
                 sz \<le> length (out_m s) \<and> sz \<le> length (fb_m s))
      then None
      else
        let original_mute_in_fade = mute_in_fade s;
            s1 = mixdown sz (mute_input sz (convert_input input sz s));
            sf = apply_feedback W sz s1
        in case run_engines W sz (fst sf) of
             None \<Rightarrow> None
           | Some s2 \<Rightarrow>
               let s3 = feedback_snapshot sz
                          (apply_filters W sz (pitch_shift W sz (diffusion W sz s2)));
                   original_mute_out_fade = mute_out_fade s3;
                   s4 = mute_output sz s3;
                   s5 = (if \<not> reverb_dry_signal s4 \<and> reverb_modes s4
                         then apply_reverb W (snd sf) sz s4 else s4);
                   s6 = crossfade W input original_mute_in_fade original_mute_out_fade sz s5;
                   s7 = (if reverb_dry_signal s6 \<and> reverb_modes s6
                         then apply_reverb W (snd sf) sz s6 else s6);
                   s8 = distort W sz s7
               in Some (s8, convert_output W sz s8 output))"

section \<open>Preparation of the workspace\<close>

text \<open>
  The local variables of \<^verbatim>\<open>Prepare\<close>, computed from the state on entry.
\<close>

definition playback_mode_changed :: "GranularProcessor \<Rightarrow> bool" where
  "playback_mode_changed s = (previous_playback_mode s \<noteq> playback_mode s)"

definition benign_change :: "GranularProcessor \<Rightarrow> bool" where
  "benign_change s =
     (playback_mode s \<noteq> PLAYBACK_MODE_SPECTRAL \<and>
      previous_playback_mode s \<noteq> PLAYBACK_MODE_SPECTRAL \<and>
      playback_mode s \<noteq> PLAYBACK_MODE_SPECTRAL_CLOUD \<and>
      previous_playback_mode s \<noteq> PLAYBACK_MODE_SPECTRAL_CLOUD \<and>
      playback_mode s \<noteq> PLAYBACK_MODE_RESONESTOR \<and>
      previous_playback_mode s \<noteq> PLAYBACK_MODE_RESONESTOR \<and>
      playback_mode s \<noteq> PLAYBACK_MODE_OLIVERB \<and>
      previous_playback_mode s \<noteq> PLAYBACK_MODE_OLIVERB \<and>
      previous_playback_mode s \<noteq> PLAYBACK_MODE_LAST)"

text \<open>
  The partition of the two raw regions: the sample storage of each channel, its size, and
  the workspace with its size.
\<close>

record partition =
  part_buffer :: "arg \<times> arg"
  part_buffer_size :: "32 word \<times> 32 word"
  part_workspace :: arg
  part_workspace_size :: "32 word"

definition partition_of :: "GranularProcessor \<Rightarrow> partition" where
  "partition_of s =
     (if num_channels s = 1
      then \<lparr>part_buffer = (APtr 0 0, ANull),
            part_buffer_size = (fst (buffer_size s), 0),
            part_workspace = APtr 1 0,
            part_workspace_size = snd (buffer_size s)\<rparr>
      else \<lparr>part_buffer = (APtr 0 0, APtr 1 0),
            part_buffer_size = (snd (buffer_size s), snd (buffer_size s)),
            part_workspace = APtr 0 (unat (snd (buffer_size s))),
            part_workspace_size = fst (buffer_size s) - snd (buffer_size s)\<rparr>)"

text \<open>
  The allocator pass. A pointer that an allocation returns and an initialisation receives
  is not written out; the correlator receives two offsets into its allocation.
\<close>

definition workspace_calls :: "world \<Rightarrow> GranularProcessor \<Rightarrow> partition \<Rightarrow> call list" where
  "workspace_calls W s part =
     (let correlator_block_size = (kMaxWSOLASize W div 32) + 2
      in [Call Allocator ''BufferAllocator''
            [part_workspace part, AInt (uint (part_workspace_size part))],
          Call Allocator ''Allocate<float>'' [AInt 2048],
          Call Diffuser ''Init'' [],
          Call Allocator ''Allocate<uint16_t>'' [AInt 16384],
          (if playback_mode s = PLAYBACK_MODE_OLIVERB
           then Call Oliverb ''Init'' [] else Call Reverb ''Init'' []),
          Call Allocator ''Allocate<uint32_t>'' [AInt (int (correlator_block_size * 3))],
          Call Correlator ''Init'' [AInt 0, AInt (int correlator_block_size)],
          Call PitchShifter ''Init'' []])"

definition PhaseVocoder_Init ::
  "world \<Rightarrow> string \<Rightarrow> partition \<Rightarrow> GranularProcessor \<Rightarrow> call" where
  "PhaseVocoder_Init W transformation part s =
     Call PhaseVocoder ''Init''
       [AName transformation,
        fst (part_buffer part), snd (part_buffer part),
        AInt (uint (fst (part_buffer_size part))), AInt (uint (snd (part_buffer_size part))),
        AName ''lut_sine_window_4096'', AInt 4096,
        AInt (num_channels s), AInt (resolution s), AFloat (sample_rate W s)]"

definition Init_call :: "GranularProcessor \<Rightarrow> partition \<Rightarrow> nat \<Rightarrow> call" where
  "Init_call s part i =
     (if resolution s = 8
      then Call (Buffer8 i) ''Init''
             [nth2 (part_buffer part) i, AInt (uint (nth2 (part_buffer_size part) i))]
      else Call (Buffer16 i) ''Init''
             [nth2 (part_buffer part) i,
              AInt (uint (drop_bit 1 (nth2 (part_buffer_size part) i)))])"

definition Init_channel ::
  "world \<Rightarrow> partition \<Rightarrow> nat \<Rightarrow> GranularProcessor \<Rightarrow> GranularProcessor" where
  "Init_channel W part i s =
     (let c = Init_call s part i;
          b = \<lparr>write_head = head_of W c s\<rparr>
      in log_calls [c]
           (if resolution s = 8 then s\<lparr>buffer_8 := upd2 i b (buffer_8 s)\<rparr>
            else s\<lparr>buffer_16 := upd2 i b (buffer_16 s)\<rparr>))"

primrec Init_loop ::
  "world \<Rightarrow> partition \<Rightarrow> nat list \<Rightarrow> GranularProcessor \<Rightarrow> GranularProcessor option" where
  "Init_loop W part [] s = Some s"
| "Init_loop W part (i # is) s =
     (if 2 \<le> i then None else Init_loop W part is (Init_channel W part i s))"

definition player_calls :: "GranularProcessor \<Rightarrow> call list" where
  "player_calls s =
     (let num_grains =
            ((if num_channels s = 1 then 40 else 32) * (if low_fidelity s then 23 else 16))
              div 16
      in [Call Player ''Init'' [AInt (num_channels s), AInt num_grains],
          Call WsPlayer ''Init'' [AName ''correlator_'', AInt (num_channels s)],
          Call Looper ''Init'' [AInt (num_channels s)],
          Call Kammerl ''Init'' [AInt (num_channels s)]])"

definition engine_init ::
  "world \<Rightarrow> partition \<Rightarrow> GranularProcessor \<Rightarrow> GranularProcessor option" where
  "engine_init W part s =
     (if playback_mode s = PLAYBACK_MODE_SPECTRAL
      then Some (log_calls [PhaseVocoder_Init W ''TRANSFORMATION_TYPE_FRAME'' part s] s)
      else if playback_mode s = PLAYBACK_MODE_SPECTRAL_CLOUD
      then Some (log_calls
                   [PhaseVocoder_Init W ''TRANSFORMATION_TYPE_SPECTRAL_CLOUD'' part s] s)
      else if playback_mode s = PLAYBACK_MODE_RESONESTOR
      then Some (log_calls [Call Resonestor ''Init'' [fst (part_buffer part)]] s)
      else
        (case Init_loop W part [0..<nat (num_channels s)] s of
           None \<Rightarrow> None
         | Some s1 \<Rightarrow> Some (log_calls (player_calls s1) s1)))"

definition repartition :: "world \<Rightarrow> GranularProcessor \<Rightarrow> GranularProcessor option" where
  "repartition W s =
     (let part = partition_of s
      in case engine_init W part (log_calls (workspace_calls W s part) s) of
           None \<Rightarrow> None
         | Some s1 \<Rightarrow>
             Some (s1\<lparr>reset_buffers := False, previous_playback_mode := playback_mode s1\<rparr>))"

definition priming :: "GranularProcessor \<Rightarrow> call list" where
  "priming s =
     (if playback_mode s = PLAYBACK_MODE_SPECTRAL \<or>
         playback_mode s = PLAYBACK_MODE_SPECTRAL_CLOUD
      then [Call PhaseVocoder ''Buffer'' []]
      else if playback_mode s = PLAYBACK_MODE_STRETCH \<or>
              playback_mode s = PLAYBACK_MODE_OLIVERB
      then [Call WsPlayer ''LoadCorrelator'' [AInt (if resolution s = 8 then 8 else 16)],
            Call Correlator ''EvaluateSomeCandidates'' []]
      else [])"

definition benign_reset :: "GranularProcessor \<Rightarrow> GranularProcessor" where
  "benign_reset s =
     (log_calls [Call PitchShifter ''Clear'' []] (ResetFilters s))
       \<lparr>previous_playback_mode := playback_mode s\<rparr>"

definition Prepare :: "world \<Rightarrow> GranularProcessor \<Rightarrow> GranularProcessor option" where
  "Prepare W s =
     (let changed = playback_mode_changed s;
          benign = benign_change s;
          s1 = (if \<not> reset_buffers s \<and> changed \<and> benign then benign_reset s else s);
          s2 = (if (changed \<and> \<not> benign) \<or> reset_buffers s1
                then s1\<lparr>parameters := (parameters s1)\<lparr>freeze := False\<rparr>\<rparr> else s1)
      in case (if reset_buffers s2 \<or> (changed \<and> \<not> benign)
               then repartition W s2 else Some s2) of
           None \<Rightarrow> None
         | Some s3 \<Rightarrow> Some (log_calls (priming s3) s3))"

text \<open>
  The calls of \<^verbatim>\<open>ResetFilters\<close>, written out, and the calls of the
  mode-specific initialisation that follows the allocator pass.
\<close>

definition filter_inits :: "call list" where
  "filter_inits =
     [Call (FbFilter 0) ''Init'' [], Call (LpFilter 0) ''Init'' [], Call (HpFilter 0) ''Init'' [],
      Call (FbFilter 1) ''Init'' [], Call (LpFilter 1) ''Init'' [], Call (HpFilter 1) ''Init'' []]"

definition engine_init_calls :: "world \<Rightarrow> GranularProcessor \<Rightarrow> call list" where
  "engine_init_calls W s =
     (if playback_mode s = PLAYBACK_MODE_SPECTRAL
      then [PhaseVocoder_Init W ''TRANSFORMATION_TYPE_FRAME'' (partition_of s) s]
      else if playback_mode s = PLAYBACK_MODE_SPECTRAL_CLOUD
      then [PhaseVocoder_Init W ''TRANSFORMATION_TYPE_SPECTRAL_CLOUD'' (partition_of s) s]
      else if playback_mode s = PLAYBACK_MODE_RESONESTOR
      then [Call Resonestor ''Init'' [fst (part_buffer (partition_of s))]]
      else map (Init_call s (partition_of s)) [0..<nat (num_channels s)] @ player_calls s)"

section \<open>The persistence protocol\<close>

definition PreparePersistentData :: "GranularProcessor \<Rightarrow> GranularProcessor" where
  "PreparePersistentData s =
     s\<lparr>persistent_state :=
         (persistent_state s)
           \<lparr>write_head0 := (if low_fidelity s then head (fst (buffer_8 s))
                            else head (fst (buffer_16 s))),
            write_head1 := (if low_fidelity s then head (snd (buffer_8 s))
                            else head (snd (buffer_16 s))),
            quality := ucast (quality_code s),
            spectral := (if playback_mode s = PLAYBACK_MODE_SPECTRAL \<or>
                            playback_mode s = PLAYBACK_MODE_SPECTRAL_CLOUD
                         then of_nat (playback_mode s) else 0)\<rparr>\<rparr>"

text \<open>
  A save block: its tag, what it points at and its size in bytes. The tags are the
  four-character codes \<^verbatim>\<open>Stat\<close> and \<^verbatim>\<open>buff\<close>, first character in the
  lowest byte.
\<close>

datatype block_data = StateBlock | BufferBlock nat

record PersistentBlock =
  tag :: "32 word"
  data :: block_data
  size_b :: "32 word"

definition FourCC :: "char \<Rightarrow> char \<Rightarrow> char \<Rightarrow> char \<Rightarrow> 32 word" where
  "FourCC a b c d =
     of_nat (of_char a) OR push_bit 8 (of_nat (of_char b)) OR
     push_bit 16 (of_nat (of_char c)) OR push_bit 24 (of_nat (of_char d))"

definition sizeof_PersistentState :: "32 word" where
  "sizeof_PersistentState = 12"

text \<open>
  \<^verbatim>\<open>GetPersistentData\<close>. The size of a buffer block is read from
  \<^verbatim>\<open>buffer_size_[num_channels_ - 1]\<close>; with more than two channels this read
  and the third buffer block fall outside the two-element arrays, and the result is
  \<open>None\<close>.
\<close>

definition GetPersistentData :: "GranularProcessor \<Rightarrow> PersistentBlock list option" where
  "GetPersistentData s =
     (if 2 < num_channels s then None
      else Some
        (\<lparr>tag = FourCC CHR ''S'' CHR ''t'' CHR ''a'' CHR ''t'', data = StateBlock,
          size_b = sizeof_PersistentState\<rparr> #
         map (\<lambda>i. \<lparr>tag = FourCC CHR ''b'' CHR ''u'' CHR ''f'' CHR ''f'',
                    data = BufferBlock i,
                    size_b = nth2 (buffer_size s) (nat (num_channels s - 1))\<rparr>)
           [0..<nat (num_channels s)]))"

text \<open>
  The twelve bytes of the state structure as three words of the stream (little-endian):
  the two write heads, then the quality code in the lowest byte, the spectral indicator
  in the next one and the two padding bytes above them.
\<close>

definition state_words :: "PersistentState \<Rightarrow> 32 word list" where
  "state_words p =
     [write_head0 p, write_head1 p,
      ucast (quality p) OR push_bit 8 (ucast (spectral p)) OR push_bit 16 (ucast (padding p))]"

definition state_of_words :: "32 word list \<Rightarrow> PersistentState" where
  "state_of_words ws =
     \<lparr>write_head0 = ws ! 0, write_head1 = ws ! 1,
      quality = ucast (ws ! 2), spectral = ucast (drop_bit 8 (ws ! 2)),
      padding = ucast (drop_bit 16 (ws ! 2))\<rparr>"

text \<open>
  \<^verbatim>\<open>memcpy(block[i].data, data, block[i].size)\<close>: the state block overwrites
  \<^verbatim>\<open>persistent_state_\<close>; a buffer block is a write into raw memory, recorded
  with its destination, the source words that cover it and its length in bytes.
\<close>

definition memcpy_block ::
  "PersistentBlock \<Rightarrow> 32 word list \<Rightarrow> GranularProcessor \<Rightarrow> GranularProcessor" where
  "memcpy_block b ws s =
     (case data b of
        StateBlock \<Rightarrow> s\<lparr>persistent_state := state_of_words ws\<rparr>
      | BufferBlock i \<Rightarrow>
          log_calls
            [Call Memory ''memcpy''
               [APtr i 0, AWords (take ((unat (size_b b) + 3) div 4) ws),
                AInt (uint (size_b b))]] s)"

text \<open>
  What follows the copy of the first block: the mode is switched if the stored spectral
  indicator differs from the current one, the quality is set from the stored state, and the
  workspace is prepared.
\<close>

definition currently_spectral :: "GranularProcessor \<Rightarrow> 8 word" where
  "currently_spectral s =
     (if playback_mode s = PLAYBACK_MODE_SPECTRAL \<or>
         playback_mode s = PLAYBACK_MODE_SPECTRAL_CLOUD
      then of_nat (playback_mode s) else 0)"

definition restore_mode :: "GranularProcessor \<Rightarrow> GranularProcessor" where
  "restore_mode s =
     (let requires_spectral = spectral (persistent_state s);
          s1 = (if currently_spectral s XOR requires_spectral \<noteq> 0
                then set_playback_mode
                       (if requires_spectral \<noteq> 0 then unat requires_spectral
                        else PLAYBACK_MODE_GRANULAR) s
                else s)
      in set_quality (ucast (quality (persistent_state s1))) s1)"

text \<open>
  One iteration of the loop of \<^verbatim>\<open>LoadPersistentData\<close>: the outcome is a format
  mismatch, or the block list, the stream position and the state for the next iteration.
  Reading the stream beyond its end is \<open>None\<close>.
\<close>

datatype step = Mismatch | Next "PersistentBlock list" "32 word list" GranularProcessor

definition load_block ::
  "world \<Rightarrow> PersistentBlock list \<Rightarrow> nat \<Rightarrow> 32 word list \<Rightarrow> GranularProcessor \<Rightarrow>
   step option" where
  "load_block W block i stream s =
     (case stream of
        d0 # d1 # rest \<Rightarrow>
          if tag (block ! i) \<noteq> d0 \<or> size_b (block ! i) \<noteq> d1 then Some Mismatch
          else if length rest * 4 < unat (size_b (block ! i)) then None
          else
            let s1 = memcpy_block (block ! i) rest s;
                rest' = drop (unat (size_b (block ! i)) div 4) rest
            in if i = 0
               then (case Prepare W (restore_mode s1) of
                       None \<Rightarrow> None
                     | Some s2 \<Rightarrow>
                         (case GetPersistentData s2 of
                            None \<Rightarrow> None
                          | Some block' \<Rightarrow> Some (Next block' rest' s2)))
               else Some (Next block rest' s1)
      | _ \<Rightarrow> None)"

definition resync_heads :: "GranularProcessor \<Rightarrow> GranularProcessor" where
  "resync_heads s =
     (if low_fidelity s
      then s\<lparr>buffer_8 :=
               (Resync (write_head0 (persistent_state s)) (fst (buffer_8 s)),
                Resync (write_head1 (persistent_state s)) (snd (buffer_8 s)))\<rparr>
      else s\<lparr>buffer_16 :=
               (Resync (write_head0 (persistent_state s)) (fst (buffer_16 s)),
                Resync (write_head1 (persistent_state s)) (snd (buffer_16 s)))\<rparr>)"

definition load_finish :: "GranularProcessor \<Rightarrow> GranularProcessor" where
  "load_finish s =
     (let s1 = resync_heads s
      in s1\<lparr>parameters := (parameters s1)\<lparr>freeze := True\<rparr>, silence := False\<rparr>)"

text \<open>
  The loop of \<^verbatim>\<open>LoadPersistentData\<close>, entered at block \<open>i\<close>. The block list
  is recomputed after the first block only, so the loop ends after at most three blocks.
\<close>

function load_loop ::
  "world \<Rightarrow> PersistentBlock list \<Rightarrow> nat \<Rightarrow> 32 word list \<Rightarrow> GranularProcessor \<Rightarrow>
   (bool \<times> GranularProcessor) option" where
  "load_loop W block i stream s =
     (if i < length block
      then (case load_block W block i stream s of
              None \<Rightarrow> None
            | Some Mismatch \<Rightarrow> Some (False, s\<lparr>silence := False\<rparr>)
            | Some (Next block' stream' s') \<Rightarrow> load_loop W block' (Suc i) stream' s')
      else Some (True, load_finish s))"
  by pat_completeness auto
termination
proof (relation "measure (\<lambda>(W, block, i, stream, s). if i = 0 then 4 else length block - i)")
  show "wf (measure (\<lambda>(W, block, i, stream, s). if i = 0 then 4 else length block - i))"
    by simp
next
  fix W :: world and block :: "PersistentBlock list" and i :: nat
    and stream :: "32 word list" and s :: GranularProcessor
    and x2 x22 x23 x24
  assume less: "i < length block"
    and step: "load_block W block i stream s = Some x2" "x2 = Next x22 x23 x24"
  have "(i = 0 \<longrightarrow> length x22 \<le> 3) \<and> (i \<noteq> 0 \<longrightarrow> x22 = block)"
    using step
    by (auto simp: load_block_def GetPersistentData_def Let_def
        split: list.splits if_splits option.splits)
  with less
  show "((W, x22, Suc i, x23, x24), (W, block, i, stream, s))
        \<in> measure (\<lambda>(W, block, i, stream, s). if i = 0 then 4 else length block - i)"
    by auto
qed

declare load_loop.simps [simp del]

definition LoadPersistentData ::
  "world \<Rightarrow> 32 word list \<Rightarrow> GranularProcessor \<Rightarrow> (bool \<times> GranularProcessor) option" where
  "LoadPersistentData W stream s =
     (let s1 = s\<lparr>silence := True\<rparr>
      in case GetPersistentData s1 of
           None \<Rightarrow> None
         | Some block \<Rightarrow> load_loop W block 0 stream s1)"

text \<open>
  \<open>loop_head W stream s i\<close> is the configuration in which
  \<^verbatim>\<open>LoadPersistentData\<close>, called on \<open>stream\<close> in state \<open>s\<close>, reaches the
  head of iteration \<open>i\<close>: the block list, the stream position and the state, after the
  blocks before \<open>i\<close> have passed their checks and have been copied.
\<close>

primrec loop_head ::
  "world \<Rightarrow> 32 word list \<Rightarrow> GranularProcessor \<Rightarrow> nat \<Rightarrow>
   (PersistentBlock list \<times> 32 word list \<times> GranularProcessor) option" where
  "loop_head W stream s 0 =
     (case GetPersistentData (s\<lparr>silence := True\<rparr>) of
        None \<Rightarrow> None
      | Some block \<Rightarrow> Some (block, stream, s\<lparr>silence := True\<rparr>))"
| "loop_head W stream s (Suc i) =
     (case loop_head W stream s i of
        None \<Rightarrow> None
      | Some (block, stream', s') \<Rightarrow>
          if i < length block
          then (case load_block W block i stream' s' of
                  Some (Next block' stream'' s'') \<Rightarrow> Some (block', stream'', s'')
                | _ \<Rightarrow> None)
          else None)"

text \<open>
  Modelled from the spec: the code that writes the save blocks to storage is not among the
  sources. The stream is flat: each block is its tag, its size in bytes and then that many
  bytes of payload, word-aligned. The payload of the state block is the state structure;
  the payload of a buffer block is what the raw region holds, given by \<open>mem\<close>.
\<close>

definition save_block ::
  "(nat \<Rightarrow> 32 word list) \<Rightarrow> GranularProcessor \<Rightarrow> PersistentBlock \<Rightarrow> 32 word list" where
  "save_block mem s b =
     [tag b, size_b b] @
     (case data b of
        StateBlock \<Rightarrow> state_words (persistent_state s)
      | BufferBlock i \<Rightarrow> take ((unat (size_b b) + 3) div 4) (mem i))"

definition save_stream ::
  "(nat \<Rightarrow> 32 word list) \<Rightarrow> GranularProcessor \<Rightarrow> 32 word list option" where
  "save_stream mem s =
     (case GetPersistentData s of
        None \<Rightarrow> None
      | Some block \<Rightarrow> Some (concat (map (save_block mem s) block)))"

section \<open>Initialisation and a test bench\<close>

text \<open>
  \<^verbatim>\<open>Init\<close> with the sizes of the two regions; the members it does not assign
  keep what the object held.
\<close>

definition Init :: "32 word \<Rightarrow> 32 word \<Rightarrow> GranularProcessor \<Rightarrow> GranularProcessor" where
  "Init large_buffer_size small_buffer_size s =
     (ResetFilters
        (log_calls [Call SrcDown ''Init'' [], Call SrcUp ''Init'' [],
                    Call PhaseVocoder ''Init'' []]
           (s\<lparr>buffer_size := (large_buffer_size, small_buffer_size),
              num_channels := 2, low_fidelity := False, bypass := False\<rparr>)))
       \<lparr>previous_playback_mode := PLAYBACK_MODE_LAST,
        reset_buffers := True,
        mute_in := False,
        mute_out := False,
        mute_in_fade := 0.0,
        mute_out_fade := 0.0,
        dry_wet_m := 0.0,
        reverb_dry_signal := True\<rparr>"

text \<open>
  A zero-filled object with frame arrays of four frames, collaborators that produce
  silence, and the processor initialised on regions of 16 and 8 bytes. They serve as
  concrete inputs.
\<close>

definition zero_parameters :: Parameters where
  "zero_parameters =
     \<lparr>position = 0, size_p = 0, pitch = 0, density = 0, texture = 0, dry_wet = 0,
      stereo_spread = 0, feedback = 0, reverb = 0, freeze = False, trigger = False,
      gate = False, granular_use_deterministic_seed = False, granular_overlap = 0,
      granular_window_shape = 0, spectral_quantization = 0, spectral_refresh_rate = 0,
      spectral_phase_randomization = 0, spectral_warp = 0, kammerl_pitch_mode = 0\<rparr>"

definition zero_processor :: GranularProcessor where
  "zero_processor =
     \<lparr>playback_mode = PLAYBACK_MODE_GRANULAR,
      previous_playback_mode = PLAYBACK_MODE_GRANULAR,
      num_channels = 0, low_fidelity = False, bypass = False, silence = False,
      reset_buffers = False, reverb_dry_signal = False, mute_in = False, mute_out = False,
      mute_in_fade = 0, mute_out_fade = 0, dry_wet_m = 0, freeze_lp = 0,
      parameters = zero_parameters,
      persistent_state =
        \<lparr>write_head0 = 0, write_head1 = 0, quality = 0, spectral = 0, padding = 0\<rparr>,
      buffer_size = (0, 0),
      buffer_8 = (\<lparr>write_head = 0\<rparr>, \<lparr>write_head = 0\<rparr>),
      buffer_16 = (\<lparr>write_head = 0\<rparr>, \<lparr>write_head = 0\<rparr>),
      in_m = replicate 4 \<lparr>l = 0, r = 0\<rparr>,
      in_downsampled = replicate 4 \<lparr>l = 0, r = 0\<rparr>,
      out_m = replicate 4 \<lparr>l = 0, r = 0\<rparr>,
      out_downsampled = replicate 4 \<lparr>l = 0, r = 0\<rparr>,
      fb_m = replicate 4 \<lparr>l = 0, r = 0\<rparr>,
      calls = []\<rparr>"

definition quiet_world :: world where
  "quiet_world =
     \<lparr>frames_of = (\<lambda>c s. replicate 4 \<lparr>l = 0, r = 0\<rparr>),
      flag_of = (\<lambda>c s. False),
      head_of = (\<lambda>c s. 0),
      Interpolate = (\<lambda>table x n. x),
      SemitonesToRatio = (\<lambda>x. 1),
      SoftLimit = (\<lambda>x. x),
      SoftConvert = (\<lambda>x. 0),
      LUT_INV_TANH_SIZE = 2,
      kDownsamplingFactor = 2,
      kMaxWSOLASize = 64\<rparr>"

definition bench :: GranularProcessor where
  "bench = Init 16 8 zero_processor"


definition frozen_bench :: GranularProcessor where
  "frozen_bench =
     bench\<lparr>playback_mode := PLAYBACK_MODE_STRETCH,
           parameters := zero_parameters\<lparr>freeze := True, feedback := 1 / 2\<rparr>,
           freeze_lp := 1\<rparr>"

definition stretch_bench :: GranularProcessor where
  "stretch_bench =
     bench\<lparr>playback_mode := PLAYBACK_MODE_STRETCH,
           previous_playback_mode := PLAYBACK_MODE_GRANULAR,
           reset_buffers := False\<rparr>"

definition head_bench :: GranularProcessor where
  "head_bench = bench\<lparr>buffer_16 := (\<lparr>write_head = 5\<rparr>, \<lparr>write_head = 7\<rparr>)\<rparr>"

definition granular_bench :: "real \<Rightarrow> real \<Rightarrow> GranularProcessor" where
  "granular_bench d tx =
     bench\<lparr>playback_mode := PLAYBACK_MODE_GRANULAR,
           parameters := zero_parameters\<lparr>density := d, texture := tx\<rparr>\<rparr>"

text \<open>
  Two processors in the looping delay and in the OLIVERB reverb, past their preparation,
  with the pitch at a half and at minus a half.
\<close>

definition looper_bench :: GranularProcessor where
  "looper_bench =
     bench\<lparr>playback_mode := PLAYBACK_MODE_LOOPING_DELAY,
           previous_playback_mode := PLAYBACK_MODE_LOOPING_DELAY,
           reset_buffers := False,
           parameters := zero_parameters\<lparr>pitch := 1 / 2\<rparr>\<rparr>"

definition oliverb_bench :: GranularProcessor where
  "oliverb_bench =
     bench\<lparr>playback_mode := PLAYBACK_MODE_OLIVERB,
           previous_playback_mode := PLAYBACK_MODE_OLIVERB,
           reset_buffers := False,
           parameters := zero_parameters\<lparr>pitch := - 1 / 2\<rparr>\<rparr>"

section \<open>Frame conditions\<close>

text \<open>
  \<open>keeps s s'\<close>: a stage that takes \<open>s\<close> to \<open>s'\<close> leaves the parameters, the mode, the
  channel count and the fidelity as they were and only adds to the log of collaborator
  calls. \<open>keeps_mode\<close> is the same without the parameters in the two modes whose
  dispatch case writes them (GRANULAR and SPECTRAL).
\<close>

definition keeps :: "GranularProcessor \<Rightarrow> GranularProcessor \<Rightarrow> bool" where
  "keeps s s' \<longleftrightarrow>
     parameters s' = parameters s \<and> playback_mode s' = playback_mode s \<and>
     num_channels s' = num_channels s \<and> low_fidelity s' = low_fidelity s \<and>
     set (calls s) \<subseteq> set (calls s')"

definition keeps_mode :: "GranularProcessor \<Rightarrow> GranularProcessor \<Rightarrow> bool" where
  "keeps_mode s s' \<longleftrightarrow>
     playback_mode s' = playback_mode s \<and>
     num_channels s' = num_channels s \<and> low_fidelity s' = low_fidelity s \<and>
     set (calls s) \<subseteq> set (calls s') \<and>
     (playback_mode s \<noteq> PLAYBACK_MODE_GRANULAR \<and> playback_mode s \<noteq> PLAYBACK_MODE_SPECTRAL
        \<longrightarrow> parameters s' = parameters s)"

section \<open>Properties\<close>

subsection \<open>Auxiliary facts\<close>

lemma length_blit [simp]: "length (blit n new old) = length old"
  by (induction n new old rule: blit.induct) auto

lemma take_blit:
  "n \<le> length new \<Longrightarrow> n \<le> length old \<Longrightarrow> take n (blit n new old) = take n new"
  by (induction n new old rule: blit.induct) auto

lemma drop_blit: "drop n (blit n new old) = drop n old"
  by (induction n new old rule: blit.induct) auto


lemma bench_fields:
  "num_channels bench = 2" "low_fidelity bench = False" "bypass bench = False"
  "playback_mode bench = PLAYBACK_MODE_GRANULAR" "parameters bench = zero_parameters"
  "previous_playback_mode bench = PLAYBACK_MODE_LAST" "reset_buffers bench = True"
  "buffer_size bench = (16, 8)" "freeze_lp bench = 0" "silence bench = False"
  by (simp_all add: bench_def Init_def ResetFilters_def log_calls_def zero_processor_def)

subsection \<open>The distortion shaper\<close>

text \<open>
  C10. When the distortion parameter is strictly below 0.1 the shaper returns the sample
  unchanged; for every parameter of at least 0.1 the value it writes lies in the closed
  interval from -1 to 1. This holds for every content of the inverse-tanh table.
\<close>

theorem WarmDistortion_edges:
  "(parameter < 0.1 \<longrightarrow> WarmDistortion W x parameter = x) \<and>
   (0.1 \<le> parameter \<longrightarrow>
      - 1 \<le> WarmDistortion W x parameter \<and> WarmDistortion W x parameter \<le> 1)"
  by (simp add: WarmDistortion_def Let_def)

theorem WarmDistortion_edges_witness:
  "WarmDistortion quiet_world (1 / 2) 0 = 1 / 2 \<and>
   - 1 \<le> WarmDistortion quiet_world 3 1 \<and> WarmDistortion quiet_world 3 1 \<le> 1"
  using WarmDistortion_edges [where W = quiet_world and x = "1 / 2" and parameter = 0]
    WarmDistortion_edges [where W = quiet_world and x = 3 and parameter = 1]
  by simp

subsection \<open>Bypass\<close>

text \<open>
  C8. With the bypass flag set, and a block that lies inside the input and output arrays,
  \<^verbatim>\<open>Process\<close> returns the processor unchanged, the first \<open>sz\<close> output frames
  are exactly the first \<open>sz\<close> input frames, and the output array beyond the block is
  untouched.
\<close>

theorem Process_bypass:
  assumes "bypass s" and "sz \<le> length input" and "sz \<le> length output"
  shows "\<exists>output'. Process W input output sz s = Some (s, output') \<and>
           take sz output' = take sz input \<and>
           drop sz output' = drop sz output"
  using assms by (simp add: Process_def take_blit drop_blit)

theorem Process_bypass_witness:
  "Process quiet_world [\<lparr>l = 1, r = 2\<rparr>, \<lparr>l = 3, r = 4\<rparr>]
     [\<lparr>l = 0, r = 0\<rparr>, \<lparr>l = 0, r = 0\<rparr>, \<lparr>l = 9, r = 9\<rparr>] 2 (bench\<lparr>bypass := True\<rparr>) =
   Some (bench\<lparr>bypass := True\<rparr>, [\<lparr>l = 1, r = 2\<rparr>, \<lparr>l = 3, r = 4\<rparr>, \<lparr>l = 9, r = 9\<rparr>])"
proof -
  have b: "bypass (bench\<lparr>bypass := True\<rparr>)" by simp
  obtain out where
    eq: "Process quiet_world [\<lparr>l = 1, r = 2\<rparr>, \<lparr>l = 3, r = 4\<rparr>]
           [\<lparr>l = 0, r = 0\<rparr>, \<lparr>l = 0, r = 0\<rparr>, \<lparr>l = 9, r = 9\<rparr>] 2 (bench\<lparr>bypass := True\<rparr>) =
         Some (bench\<lparr>bypass := True\<rparr>, out)"
    and new: "take 2 out = [\<lparr>l = 1, r = 2\<rparr>, \<lparr>l = 3, r = 4\<rparr>]"
    and old: "drop 2 out = [\<lparr>l = 9, r = 9\<rparr>]"
    using Process_bypass [OF b, of 2 "[\<lparr>l = 1, r = 2\<rparr>, \<lparr>l = 3, r = 4\<rparr>]"
        "[\<lparr>l = 0, r = 0\<rparr>, \<lparr>l = 0, r = 0\<rparr>, \<lparr>l = 9, r = 9\<rparr>]" quiet_world]
    by auto
  have "out = take 2 out @ drop 2 out" by simp
  with new old have "out = [\<lparr>l = 1, r = 2\<rparr>, \<lparr>l = 3, r = 4\<rparr>, \<lparr>l = 9, r = 9\<rparr>]"
    by simp
  with eq show ?thesis by simp
qed

subsection \<open>Writing and dispatch in \<^verbatim>\<open>ProcessGranular\<close>\<close>

lemma WriteFade_call_cong:
  "low_fidelity s' = low_fidelity s \<Longrightarrow> WriteFade_call s' = WriteFade_call s"
  by (simp add: WriteFade_call_def resolution_def fun_eq_iff)

lemma WriteFade_channel_frame:
  "parameters (WriteFade_channel W input sz play i s) = parameters s \<and>
   playback_mode (WriteFade_channel W input sz play i s) = playback_mode s \<and>
   low_fidelity (WriteFade_channel W input sz play i s) = low_fidelity s \<and>
   num_channels (WriteFade_channel W input sz play i s) = num_channels s \<and>
   calls (WriteFade_channel W input sz play i s) = calls s @ [WriteFade_call s input sz play i]"
  by (simp add: WriteFade_channel_def log_calls_def Let_def)

lemma WriteFade_loop_frame:
  "WriteFade_loop W input sz play js s = Some s' \<Longrightarrow>
   parameters s' = parameters s \<and> playback_mode s' = playback_mode s \<and>
   low_fidelity s' = low_fidelity s \<and> num_channels s' = num_channels s \<and>
   calls s' = calls s @ map (WriteFade_call s input sz play) js"
proof (induction js arbitrary: s)
  case Nil
  then show ?case by simp
next
  case (Cons i js)
  from Cons.prems have
    run: "WriteFade_loop W input sz play js (WriteFade_channel W input sz play i s) = Some s'"
    by (auto split: if_splits)
  from Cons.IH [OF run] show ?case
    by (simp add: WriteFade_channel_frame
        WriteFade_call_cong [of "WriteFade_channel W input sz play i s" s])
qed

lemma WriteFade_loop_Some:
  "\<forall>i \<in> set js. i < 2 \<Longrightarrow> \<exists>s'. WriteFade_loop W input sz play js s = Some s'"
  by (induction js arbitrary: s) auto

lemma write_input_frame:
  "write_input W input sz s = Some s1 \<Longrightarrow>
   parameters s1 = parameters s \<and> playback_mode s1 = playback_mode s \<and>
   low_fidelity s1 = low_fidelity s \<and> num_channels s1 = num_channels s \<and>
   calls s1 = calls s @
     (if playback_mode s \<noteq> PLAYBACK_MODE_SPECTRAL \<and>
         playback_mode s \<noteq> PLAYBACK_MODE_SPECTRAL_CLOUD \<and>
         playback_mode s \<noteq> PLAYBACK_MODE_RESONESTOR
      then map (WriteFade_call s input sz
                  (\<not> freeze (parameters s) \<or> playback_mode s = PLAYBACK_MODE_OLIVERB \<or>
                   playback_mode s = PLAYBACK_MODE_KAMMERL))
             [0..<nat (num_channels s)]
      else [])"
  by (auto simp: write_input_def Let_def dest!: WriteFade_loop_frame split: if_splits)

lemma write_input_Some:
  "num_channels s \<le> 2 \<Longrightarrow> \<exists>s1. write_input W input sz s = Some s1"
  unfolding write_input_def Let_def
  by (auto intro!: WriteFade_loop_Some)

lemma ProcessGranular_Some:
  "num_channels s \<le> 2 \<Longrightarrow>
   \<exists>s' output'. ProcessGranular W input output sz s = Some (s', output')"
  using write_input_Some [of s W input sz]
  by (cases "dispatch W input sz (the (write_input W input sz s), output)")
    (auto simp: ProcessGranular_def)

lemma oliverb_settings_callee: "c \<in> set (oliverb_settings W q) \<Longrightarrow> callee c = Oliverb"
  by (auto simp: oliverb_settings_def Let_def split: if_splits)

lemma resonestor_settings_callee:
  "c \<in> set (resonestor_settings q) \<Longrightarrow> callee c = Resonestor"
  by (auto simp: resonestor_settings_def Let_def split: if_splits)

lemma Play_calls:
  "calls (fst (Play W e p sz (s, buf))) = calls s @ [Call e ''Play''
     [AInt (if resolution s = 8 then 8 else 16), AParams p, AInt (int sz)]]"
  by (simp add: Play_def engine_writes_def log_calls_def)

lemma engine_process_calls:
  "calls (fst (engine_process W e sz (s, buf))) =
   calls s @ [Call e ''Process'' [AFrames (take sz buf), AInt (int sz)]]"
  by (simp add: engine_process_def engine_writes_def log_calls_def)

lemma PhaseVocoder_Process_calls:
  "calls (fst (PhaseVocoder_Process W input sz (s, buf))) =
   calls s @ [Call PhaseVocoder ''Process''
     [AParams (parameters s), AFrames (take sz input), AInt (int sz)]]"
  by (simp add: PhaseVocoder_Process_def engine_writes_def log_calls_def)

lemma dispatch_calls:
  "\<exists>rest. calls (fst (dispatch W input sz (s, buf))) = calls s @ rest \<and>
          (\<forall>c \<in> set rest. \<not> ring_buffer (callee c))"
proof -
  have G: "\<exists>rest. calls (fst (case_GRANULAR W sz (s, buf))) = calls s @ rest \<and>
          (\<forall>c \<in> set rest. \<not> ring_buffer (callee c))"
    by (simp add: case_GRANULAR_def Let_def Play_calls)
  have S: "\<exists>rest. calls (fst (case_SPECTRAL W input sz (s, buf))) = calls s @ rest \<and>
          (\<forall>c \<in> set rest. \<not> ring_buffer (callee c))"
    by (simp add: case_SPECTRAL_def PhaseVocoder_Process_calls)
  have C: "\<exists>rest. calls (fst (case_SPECTRAL_CLOUD W input sz (s, buf))) = calls s @ rest \<and>
          (\<forall>c \<in> set rest. \<not> ring_buffer (callee c))"
    using PhaseVocoder_Process_calls [of W input sz s buf]
    by (cases "PhaseVocoder_Process W input sz (s, buf)")
      (simp add: case_SPECTRAL_CLOUD_def)
  have O: "\<exists>rest. calls (fst (case_OLIVERB W sz (s, buf))) = calls s @ rest \<and>
          (\<forall>c \<in> set rest. \<not> ring_buffer (callee c))"
  proof (cases "Play W WsPlayer (oliverb_predelay W s) sz (s, buf)")
    case (Pair s1 buf1)
    with Play_calls [of W WsPlayer "oliverb_predelay W s" sz s buf]
    have "calls (fst (case_OLIVERB W sz (s, buf))) =
      calls s @ ([Call WsPlayer ''Play''
         [AInt (if resolution s = 8 then 8 else 16), AParams (oliverb_predelay W s),
          AInt (int sz)]] @ oliverb_settings W (parameters s1) @
        [Call Oliverb ''Process'' [AFrames (take sz buf1), AInt (int sz)]])"
      by (simp add: case_OLIVERB_def engine_process_calls log_calls_def)
    moreover have "\<forall>c \<in> set ([Call WsPlayer ''Play''
         [AInt (if resolution s = 8 then 8 else 16), AParams (oliverb_predelay W s),
          AInt (int sz)]] @ oliverb_settings W (parameters s1) @
        [Call Oliverb ''Process'' [AFrames (take sz buf1), AInt (int sz)]]).
        \<not> ring_buffer (callee c)"
      by (auto dest: oliverb_settings_callee)
    ultimately show ?thesis by blast
  qed
  have R: "\<exists>rest. calls (fst (case_RESONESTOR W input sz (s, buf))) = calls s @ rest \<and>
          (\<forall>c \<in> set rest. \<not> ring_buffer (callee c))"
  proof -
    have "calls (fst (case_RESONESTOR W input sz (s, buf))) =
      calls s @ (resonestor_settings (parameters s) @
        [Call Resonestor ''Process'' [AFrames (take sz (blit sz input buf)), AInt (int sz)]])"
      by (simp add: case_RESONESTOR_def engine_process_calls log_calls_def)
    moreover have "\<forall>c \<in> set (resonestor_settings (parameters s) @
        [Call Resonestor ''Process'' [AFrames (take sz (blit sz input buf)), AInt (int sz)]]).
        \<not> ring_buffer (callee c)"
      by (auto dest: resonestor_settings_callee)
    ultimately show ?thesis by blast
  qed
  show ?thesis
    unfolding dispatch_def Let_def
    using G S C O R by (simp add: Play_calls)
qed

text \<open>
  C9. In every mode other than SPECTRAL, SPECTRAL_CLOUD and RESONESTOR, the calls that
  \<^verbatim>\<open>ProcessGranular\<close> makes begin with one \<^verbatim>\<open>WriteFade\<close> per active
  channel, on the 8-bit buffer when the resolution is 8 and on the 16-bit buffer
  otherwise, with the block of input, stride 2 and a write flag that is false exactly when
  freeze is active and the mode is neither OLIVERB nor KAMMERL. In the three excepted
  modes there is no such call. The calls of the mode dispatch follow, and none of them
  goes to a ring buffer.
\<close>

theorem ring_buffer_write_gating:
  assumes "ProcessGranular W input output sz s = Some (s', output')"
  shows "\<exists>rest.
     calls s' = calls s @
       (if playback_mode s = PLAYBACK_MODE_SPECTRAL \<or>
           playback_mode s = PLAYBACK_MODE_SPECTRAL_CLOUD \<or>
           playback_mode s = PLAYBACK_MODE_RESONESTOR
        then []
        else map (\<lambda>i. Call (if resolution s = 8 then Buffer8 i else Buffer16 i) ''WriteFade''
                        [AFrames (take sz input), AInt (int i), AInt (int sz), AInt 2,
                         ABool (\<not> (freeze (parameters s) \<and>
                                   playback_mode s \<noteq> PLAYBACK_MODE_OLIVERB \<and>
                                   playback_mode s \<noteq> PLAYBACK_MODE_KAMMERL))])
               [0..<nat (num_channels s)]) @ rest \<and>
     (\<forall>c \<in> set rest. \<not> ring_buffer (callee c))"
proof -
  from assms obtain s1 where
    w: "write_input W input sz s = Some s1" and
    d: "dispatch W input sz (s1, output) = (s', output')"
    by (auto simp: ProcessGranular_def split: option.splits)
  from dispatch_calls [of W input sz s1 "output"] d obtain rest where
    rest: "calls s' = calls s1 @ rest" "\<forall>c \<in> set rest. \<not> ring_buffer (callee c)"
    by auto
  have "calls s1 = calls s @
       (if playback_mode s = PLAYBACK_MODE_SPECTRAL \<or>
           playback_mode s = PLAYBACK_MODE_SPECTRAL_CLOUD \<or>
           playback_mode s = PLAYBACK_MODE_RESONESTOR
        then []
        else map (\<lambda>i. Call (if resolution s = 8 then Buffer8 i else Buffer16 i) ''WriteFade''
                        [AFrames (take sz input), AInt (int i), AInt (int sz), AInt 2,
                         ABool (\<not> (freeze (parameters s) \<and>
                                   playback_mode s \<noteq> PLAYBACK_MODE_OLIVERB \<and>
                                   playback_mode s \<noteq> PLAYBACK_MODE_KAMMERL))])
               [0..<nat (num_channels s)])"
    using write_input_frame [OF w] by (simp add: WriteFade_call_def)
  with rest show ?thesis by simp
qed

theorem ring_buffer_write_gating_witness:
  "\<exists>s' output' rest.
     ProcessGranular quiet_world [\<lparr>l = 1, r = 2\<rparr>, \<lparr>l = 3, r = 4\<rparr>, \<lparr>l = 5, r = 6\<rparr>]
       [] 2 frozen_bench = Some (s', output') \<and>
     calls s' = calls frozen_bench @
       [Call (Buffer16 0) ''WriteFade''
          [AFrames [\<lparr>l = 1, r = 2\<rparr>, \<lparr>l = 3, r = 4\<rparr>], AInt 0, AInt 2, AInt 2, ABool False],
        Call (Buffer16 1) ''WriteFade''
          [AFrames [\<lparr>l = 1, r = 2\<rparr>, \<lparr>l = 3, r = 4\<rparr>], AInt 1, AInt 2, AInt 2, ABool False]] @
       rest"
proof -
  have f: "num_channels frozen_bench = 2" "resolution frozen_bench = 16"
    "playback_mode frozen_bench = PLAYBACK_MODE_STRETCH"
    "freeze (parameters frozen_bench)"
    by (simp_all add: frozen_bench_def bench_fields resolution_def)
  then have "num_channels frozen_bench \<le> 2" by simp
  from ProcessGranular_Some [OF this] obtain s' output' where
    run: "ProcessGranular quiet_world [\<lparr>l = 1, r = 2\<rparr>, \<lparr>l = 3, r = 4\<rparr>, \<lparr>l = 5, r = 6\<rparr>]
            [] 2 frozen_bench = Some (s', output')"
    by blast
  have two: "[0..<2] = [0, Suc 0]" by (simp add: upt_rec numeral_2_eq_2)
  from ring_buffer_write_gating [OF run] show ?thesis
    using run by (auto simp: f two PLAYBACK_MODE_defs)
qed

text \<open>
  C7. In the GRANULAR branch the overlap is 0 for a density between 0.47 and 0.53,
  (density - 0.53) * 2.12 for a density of at least 0.53 and (0.47 - density) * 2.12 for
  a density of at most 0.47; the deterministic-seed flag is set exactly when the density is
  below 0.5; the window shape is texture * 1.333 below a texture of 0.75 and 1 from there
  on. These are the parameters the granular player is called with.
\<close>

theorem granular_meta_parameters:
  assumes "playback_mode s = PLAYBACK_MODE_GRANULAR"
    and "ProcessGranular W input output sz s = Some (s', output')"
  shows "(0.47 \<le> density (parameters s) \<and> density (parameters s) \<le> 0.53 \<longrightarrow>
            granular_overlap (parameters s') = 0) \<and>
         (0.53 \<le> density (parameters s) \<longrightarrow>
            granular_overlap (parameters s') = (density (parameters s) - 0.53) * 2.12) \<and>
         (density (parameters s) \<le> 0.47 \<longrightarrow>
            granular_overlap (parameters s') = (0.47 - density (parameters s)) * 2.12) \<and>
         (granular_use_deterministic_seed (parameters s') \<longleftrightarrow> density (parameters s) < 0.5) \<and>
         (texture (parameters s) < 0.75 \<longrightarrow>
            granular_window_shape (parameters s') = texture (parameters s) * 1.333) \<and>
         (0.75 \<le> texture (parameters s) \<longrightarrow> granular_window_shape (parameters s') = 1.0) \<and>
         last (calls s') =
           Call Player ''Play''
             [AInt (if resolution s = 8 then 8 else 16), AParams (parameters s'), AInt (int sz)]"
proof -
  from assms(2) obtain s1 where
    w: "write_input W input sz s = Some s1" and
    d: "dispatch W input sz (s1, output) = (s', output')"
    by (auto simp: ProcessGranular_def split: option.splits)
  note f = write_input_frame [OF w]
  from f assms(1) have m: "playback_mode s1 = PLAYBACK_MODE_GRANULAR" by simp
  from d m have p: "parameters s' = granular_meta (parameters s1)"
    and c: "last (calls s') =
      Call Player ''Play''
        [AInt (if resolution s1 = 8 then 8 else 16), AParams (parameters s'), AInt (int sz)]"
    by (auto simp: dispatch_def case_GRANULAR_def Play_def engine_writes_def log_calls_def
        Let_def resolution_def)
  from f have r: "resolution s1 = resolution s" by (simp add: resolution_def)
  from f have q: "parameters s1 = parameters s" by simp
  show ?thesis
    unfolding p q c r by (simp add: granular_meta_def Let_def)
qed

theorem granular_meta_parameters_witness:
  "(\<exists>s' output'.
      ProcessGranular quiet_world [] [] 0 (granular_bench 0.6 0.5) = Some (s', output') \<and>
      granular_overlap (parameters s') = (0.6 - 0.53) * 2.12 \<and>
      \<not> granular_use_deterministic_seed (parameters s') \<and>
      granular_window_shape (parameters s') = 0.5 * 1.333) \<and>
   (\<exists>s' output'.
      ProcessGranular quiet_world [] [] 0 (granular_bench 0.2 0.9) = Some (s', output') \<and>
      granular_overlap (parameters s') = (0.47 - 0.2) * 2.12 \<and>
      granular_use_deterministic_seed (parameters s') \<and>
      granular_window_shape (parameters s') = 1) \<and>
   (\<exists>s' output'.
      ProcessGranular quiet_world [] [] 0 (granular_bench 0.5 0.9) = Some (s', output') \<and>
      granular_overlap (parameters s') = 0)"
proof -
  have f: "playback_mode (granular_bench d tx) = PLAYBACK_MODE_GRANULAR"
    "num_channels (granular_bench d tx) \<le> 2"
    "density (parameters (granular_bench d tx)) = d"
    "texture (parameters (granular_bench d tx)) = tx" for d tx
    by (simp_all add: granular_bench_def bench_fields zero_parameters_def)
  obtain s1 o1 where
    r1: "ProcessGranular quiet_world [] [] 0 (granular_bench 0.6 0.5) = Some (s1, o1)"
    using ProcessGranular_Some [OF f(2)] by blast
  obtain s2 o2 where
    r2: "ProcessGranular quiet_world [] [] 0 (granular_bench 0.2 0.9) = Some (s2, o2)"
    using ProcessGranular_Some [OF f(2)] by blast
  obtain s3 o3 where
    r3: "ProcessGranular quiet_world [] [] 0 (granular_bench 0.5 0.9) = Some (s3, o3)"
    using ProcessGranular_Some [OF f(2)] by blast
  from granular_meta_parameters [OF f(1) r1] granular_meta_parameters [OF f(1) r2]
    granular_meta_parameters [OF f(1) r3] r1 r2 r3
  show ?thesis by (simp add: f)
qed

subsection \<open>The feedback stage\<close>







subsection \<open>Preparation\<close>

lemma Init_channel_frame:
  "playback_mode (Init_channel W part i s) = playback_mode s \<and>
   previous_playback_mode (Init_channel W part i s) = previous_playback_mode s \<and>
   num_channels (Init_channel W part i s) = num_channels s \<and>
   low_fidelity (Init_channel W part i s) = low_fidelity s \<and>
   buffer_size (Init_channel W part i s) = buffer_size s \<and>
   persistent_state (Init_channel W part i s) = persistent_state s \<and>
   parameters (Init_channel W part i s) = parameters s \<and>
   silence (Init_channel W part i s) = silence s \<and>
   reset_buffers (Init_channel W part i s) = reset_buffers s \<and>
   calls (Init_channel W part i s) = calls s @ [Init_call s part i]"
  by (simp add: Init_channel_def log_calls_def Let_def)

lemma Init_call_cong:
  "low_fidelity s' = low_fidelity s \<Longrightarrow> Init_call s' = Init_call s"
  by (simp add: Init_call_def resolution_def fun_eq_iff)

lemma Init_loop_frame:
  "Init_loop W part js s = Some s' \<Longrightarrow>
   playback_mode s' = playback_mode s \<and>
   previous_playback_mode s' = previous_playback_mode s \<and>
   num_channels s' = num_channels s \<and>
   low_fidelity s' = low_fidelity s \<and>
   buffer_size s' = buffer_size s \<and>
   persistent_state s' = persistent_state s \<and>
   parameters s' = parameters s \<and>
   silence s' = silence s \<and>
   reset_buffers s' = reset_buffers s \<and>
   calls s' = calls s @ map (Init_call s part) js"
proof (induction js arbitrary: s)
  case Nil
  then show ?case by simp
next
  case (Cons i js)
  from Cons.prems have
    run: "Init_loop W part js (Init_channel W part i s) = Some s'"
    by (auto split: if_splits)
  from Cons.IH [OF run] show ?case
    by (simp add: Init_channel_frame Init_call_cong [of "Init_channel W part i s" s])
qed

lemma Init_loop_Some:
  "\<forall>i \<in> set js. i < 2 \<Longrightarrow> \<exists>s'. Init_loop W part js s = Some s'"
  by (induction js arbitrary: s) auto

lemma engine_init_frame:
  "engine_init W part s = Some s' \<Longrightarrow>
   playback_mode s' = playback_mode s \<and>
   previous_playback_mode s' = previous_playback_mode s \<and>
   num_channels s' = num_channels s \<and>
   low_fidelity s' = low_fidelity s \<and>
   buffer_size s' = buffer_size s \<and>
   persistent_state s' = persistent_state s \<and>
   parameters s' = parameters s \<and>
   silence s' = silence s \<and>
   reset_buffers s' = reset_buffers s"
  by (auto simp: engine_init_def log_calls_def split: if_splits option.splits
      dest!: Init_loop_frame)

lemma engine_init_Some:
  "num_channels s \<le> 2 \<Longrightarrow> \<exists>s'. engine_init W part s = Some s'"
proof -
  assume "num_channels s \<le> 2"
  then have "\<forall>i \<in> set [0..<nat (num_channels s)]. i < 2" by auto
  from Init_loop_Some [OF this, of W part s] show ?thesis
    by (auto simp: engine_init_def)
qed

lemma repartition_frame:
  "repartition W s = Some s' \<Longrightarrow>
   playback_mode s' = playback_mode s \<and>
   previous_playback_mode s' = playback_mode s \<and>
   num_channels s' = num_channels s \<and>
   low_fidelity s' = low_fidelity s \<and>
   buffer_size s' = buffer_size s \<and>
   persistent_state s' = persistent_state s \<and>
   parameters s' = parameters s \<and>
   silence s' = silence s \<and>
   \<not> reset_buffers s'"
  by (auto simp: repartition_def Let_def log_calls_def split: option.splits
      dest!: engine_init_frame)

lemma repartition_Some:
  "num_channels s \<le> 2 \<Longrightarrow> \<exists>s'. repartition W s = Some s'"
  using engine_init_Some [of "log_calls (workspace_calls W s (partition_of s)) s" W "partition_of s"]
  by (auto simp: repartition_def Let_def log_calls_def)

lemma benign_reset_frame:
  "playback_mode (benign_reset s) = playback_mode s \<and>
   previous_playback_mode (benign_reset s) = playback_mode s \<and>
   num_channels (benign_reset s) = num_channels s \<and>
   low_fidelity (benign_reset s) = low_fidelity s \<and>
   buffer_size (benign_reset s) = buffer_size s \<and>
   persistent_state (benign_reset s) = persistent_state s \<and>
   parameters (benign_reset s) = parameters s \<and>
   silence (benign_reset s) = silence s \<and>
   reset_buffers (benign_reset s) = reset_buffers s"
  by (simp add: benign_reset_def ResetFilters_def log_calls_def)

lemma Prepare_frame:
  assumes "Prepare W s = Some s'"
  shows "playback_mode s' = playback_mode s \<and>
   previous_playback_mode s' = playback_mode s \<and>
   num_channels s' = num_channels s \<and>
   low_fidelity s' = low_fidelity s \<and>
   buffer_size s' = buffer_size s \<and>
   persistent_state s' = persistent_state s \<and>
   silence s' = silence s \<and>
   \<not> reset_buffers s'"
proof (cases "reset_buffers s \<or> (playback_mode_changed s \<and> \<not> benign_change s)")
  case True
  then have "\<not> (\<not> reset_buffers s \<and> playback_mode_changed s \<and> benign_change s)" by auto
  with True assms obtain s3 where
    r: "repartition W (s\<lparr>parameters := (parameters s)\<lparr>freeze := False\<rparr>\<rparr>) = Some s3"
    and e: "s' = log_calls (priming s3) s3"
    by (auto simp: Prepare_def Let_def split: option.splits if_splits)
  from repartition_frame [OF r] e show ?thesis by (simp add: log_calls_def)
next
  case False
  then have nr: "\<not> reset_buffers s" and b: "playback_mode_changed s \<longrightarrow> benign_change s"
    by auto
  show ?thesis
  proof (cases "playback_mode_changed s")
    case True
    with nr b assms have "s' = log_calls (priming (benign_reset s)) (benign_reset s)"
      by (simp add: Prepare_def Let_def benign_reset_frame)
    then show ?thesis using nr by (simp add: log_calls_def benign_reset_frame)
  next
    case False
    with nr assms have "s' = log_calls (priming s) s"
      by (simp add: Prepare_def Let_def)
    then show ?thesis using nr False by (simp add: log_calls_def playback_mode_changed_def)
  qed
qed

lemma Prepare_Some:
  assumes "num_channels s \<le> 2"
  shows "\<exists>s'. Prepare W s = Some s'"
proof -
  define s2 where "s2 = (let changed = playback_mode_changed s;
          benign = benign_change s;
          s1 = (if \<not> reset_buffers s \<and> changed \<and> benign then benign_reset s else s)
      in (if (changed \<and> \<not> benign) \<or> reset_buffers s1
                then s1\<lparr>parameters := (parameters s1)\<lparr>freeze := False\<rparr>\<rparr> else s1))"
  have "num_channels s2 = num_channels s"
    by (simp add: s2_def Let_def benign_reset_frame)
  with assms have "num_channels s2 \<le> 2" by simp
  from repartition_Some [OF this, of W] show ?thesis
    by (auto simp: Prepare_def Let_def s2_def)
qed

lemma ResetFilters_calls: "ResetFilters s = log_calls filter_inits s"
  by (simp add: ResetFilters_def filter_inits_def upt_rec numeral_2_eq_2)

lemma priming_cong:
  "playback_mode s' = playback_mode s \<Longrightarrow> low_fidelity s' = low_fidelity s \<Longrightarrow>
   priming s' = priming s"
  by (simp add: priming_def resolution_def)

lemma Prepare_benign:
  assumes "playback_mode_changed s" and "benign_change s" and "\<not> reset_buffers s"
  shows "Prepare W s =
    Some (s\<lparr>previous_playback_mode := playback_mode s,
            calls := calls s @ filter_inits @ [Call PitchShifter ''Clear'' []] @
              (if playback_mode s = PLAYBACK_MODE_STRETCH
               then [Call WsPlayer ''LoadCorrelator'' [AInt (if resolution s = 8 then 8 else 16)],
                     Call Correlator ''EvaluateSomeCandidates'' []]
               else [])\<rparr>)"
proof -
  have p: "priming (benign_reset s) = priming s"
    by (rule priming_cong) (simp_all add: benign_reset_frame)
  from assms(2) have q: "priming s =
     (if playback_mode s = PLAYBACK_MODE_STRETCH
      then [Call WsPlayer ''LoadCorrelator'' [AInt (if resolution s = 8 then 8 else 16)],
            Call Correlator ''EvaluateSomeCandidates'' []]
      else [])"
    by (simp add: priming_def benign_change_def)
  from assms have "Prepare W s = Some (log_calls (priming s) (benign_reset s))"
    by (simp add: Prepare_def Let_def benign_reset_frame p)
  then show ?thesis
    unfolding q by (simp add: benign_reset_def ResetFilters_calls log_calls_def)
qed

lemma workspace_calls_cong:
  "playback_mode s' = playback_mode s \<Longrightarrow> workspace_calls W s' = workspace_calls W s"
  by (simp add: workspace_calls_def fun_eq_iff)

lemma partition_of_cong:
  "num_channels s' = num_channels s \<Longrightarrow> buffer_size s' = buffer_size s \<Longrightarrow>
   partition_of s' = partition_of s"
  by (simp add: partition_of_def)

lemma PhaseVocoder_Init_cong:
  "num_channels s' = num_channels s \<Longrightarrow> low_fidelity s' = low_fidelity s \<Longrightarrow>
   PhaseVocoder_Init W tr part s' = PhaseVocoder_Init W tr part s"
  by (simp add: PhaseVocoder_Init_def resolution_def sample_rate_def)

lemma player_calls_cong:
  "num_channels s' = num_channels s \<Longrightarrow> low_fidelity s' = low_fidelity s \<Longrightarrow>
   player_calls s' = player_calls s"
  by (simp add: player_calls_def)

lemma engine_init_calls_cong:
  "playback_mode s' = playback_mode s \<Longrightarrow> num_channels s' = num_channels s \<Longrightarrow>
   low_fidelity s' = low_fidelity s \<Longrightarrow> buffer_size s' = buffer_size s \<Longrightarrow>
   engine_init_calls W s' = engine_init_calls W s"
  by (simp add: engine_init_calls_def partition_of_cong [of s' s]
      PhaseVocoder_Init_cong [of s' s] player_calls_cong [of s' s] Init_call_cong [of s' s])

lemma engine_init_calls_eq:
  assumes "engine_init W (partition_of s) s = Some s'"
  shows "calls s' = calls s @ engine_init_calls W s"
proof -
  consider (frame) "playback_mode s = PLAYBACK_MODE_SPECTRAL"
    | (cloud) "playback_mode s \<noteq> PLAYBACK_MODE_SPECTRAL"
        "playback_mode s = PLAYBACK_MODE_SPECTRAL_CLOUD"
    | (reson) "playback_mode s \<noteq> PLAYBACK_MODE_SPECTRAL"
        "playback_mode s \<noteq> PLAYBACK_MODE_SPECTRAL_CLOUD"
        "playback_mode s = PLAYBACK_MODE_RESONESTOR"
    | (ring) "playback_mode s \<noteq> PLAYBACK_MODE_SPECTRAL"
        "playback_mode s \<noteq> PLAYBACK_MODE_SPECTRAL_CLOUD"
        "playback_mode s \<noteq> PLAYBACK_MODE_RESONESTOR"
    by blast
  then show ?thesis
  proof cases
    case frame
    with assms have "s' = log_calls (engine_init_calls W s) s"
      by (simp add: engine_init_def engine_init_calls_def)
    then show ?thesis by (simp add: log_calls_def)
  next
    case cloud
    with assms have "s' = log_calls (engine_init_calls W s) s"
      by (simp add: engine_init_def engine_init_calls_def)
    then show ?thesis by (simp add: log_calls_def)
  next
    case reson
    with assms have "s' = log_calls (engine_init_calls W s) s"
      by (simp add: engine_init_def engine_init_calls_def)
    then show ?thesis by (simp add: log_calls_def)
  next
    case ring
    with assms obtain s1 where
      l: "Init_loop W (partition_of s) [0..<nat (num_channels s)] s = Some s1"
      and e: "s' = log_calls (player_calls s1) s1"
      by (simp add: engine_init_def split: option.splits)
    note f = Init_loop_frame [OF l]
    have "player_calls s1 = player_calls s" by (rule player_calls_cong) (simp_all add: f)
    with f e ring show ?thesis
      by (simp add: engine_init_calls_def log_calls_def)
  qed
qed

lemma Prepare_structural:
  assumes "(playback_mode_changed s \<and> \<not> benign_change s) \<or> reset_buffers s"
    and "Prepare W s = Some s'"
  shows "\<not> freeze (parameters s') \<and>
         calls s' = calls s @ workspace_calls W s (partition_of s) @ engine_init_calls W s @
           priming s"
proof -
  define s2 where "s2 = s\<lparr>parameters := (parameters s)\<lparr>freeze := False\<rparr>\<rparr>"
  define s0 where "s0 = log_calls (workspace_calls W s2 (partition_of s2)) s2"
  from assms(1) have n: "\<not> (\<not> reset_buffers s \<and> playback_mode_changed s \<and> benign_change s)"
    by auto
  with assms obtain s3 where
    r: "repartition W s2 = Some s3" and e: "s' = log_calls (priming s3) s3"
    by (auto simp: Prepare_def Let_def s2_def split: option.splits if_splits)
  from r obtain s1 where
    i: "engine_init W (partition_of s2) s0 = Some s1"
    and s3: "s3 = s1\<lparr>reset_buffers := False, previous_playback_mode := playback_mode s1\<rparr>"
    by (auto simp: repartition_def Let_def s0_def split: option.splits)
  have p0: "partition_of s0 = partition_of s" "partition_of s2 = partition_of s"
    by (simp_all add: s0_def s2_def log_calls_def partition_of_def)
  from i have i': "engine_init W (partition_of s0) s0 = Some s1" by (simp add: p0)
  have w: "workspace_calls W s2 = workspace_calls W s"
    by (rule workspace_calls_cong) (simp add: s2_def)
  have cs2: "calls s2 = calls s" by (simp add: s2_def)
  have c0: "calls s0 = calls s @ workspace_calls W s (partition_of s)"
    by (simp add: s0_def log_calls_def p0 w cs2)
  have c1: "engine_init_calls W s0 = engine_init_calls W s"
    by (rule engine_init_calls_cong) (simp_all add: s0_def s2_def log_calls_def)
  note f = engine_init_frame [OF i]
  have pr: "priming s3 = priming s"
    by (rule priming_cong) (simp_all add: s3 f s0_def s2_def log_calls_def)
  have fr: "\<not> freeze (parameters s')"
    by (simp add: e s3 f log_calls_def s0_def s2_def)
  from engine_init_calls_eq [OF i'] c0 c1 pr e s3 fr show ?thesis
    by (simp add: log_calls_def)
qed

lemma stretch_bench_fields:
  "playback_mode_changed stretch_bench" "benign_change stretch_bench"
  "\<not> reset_buffers stretch_bench" "playback_mode stretch_bench = PLAYBACK_MODE_STRETCH"
  "resolution stretch_bench = 16"
  by (simp_all add: stretch_bench_def playback_mode_changed_def benign_change_def
      resolution_def bench_fields PLAYBACK_MODE_defs)

text \<open>
  C4, as the code has it. A mode transition is benign exactly when neither the previous nor
  the new mode is SPECTRAL, SPECTRAL_CLOUD, RESONESTOR or OLIVERB and the previous mode is
  not the sentinel. On a benign transition with the reset-buffers flag clear,
  \<^verbatim>\<open>Prepare\<close> resets the filters, clears the pitch shifter, records the new
  mode as prepared and, when the new mode is STRETCH, reloads the correlator and evaluates
  some candidates; every other member, the ring buffers among them, is left as it was and
  no allocation or initialisation is made. On a structural transition, or with the
  reset-buffers flag set, it disengages freeze, runs the allocator pass over the partition
  of the two regions and the initialisation of the engines of the mode, clears the flag
  and records the mode. With at most two channels \<^verbatim>\<open>Prepare\<close> returns.
\<close>

theorem Prepare_transitions:
  "(benign_change s \<longleftrightarrow>
      playback_mode s \<notin> {PLAYBACK_MODE_SPECTRAL, PLAYBACK_MODE_SPECTRAL_CLOUD,
                          PLAYBACK_MODE_RESONESTOR, PLAYBACK_MODE_OLIVERB} \<and>
      previous_playback_mode s \<notin> {PLAYBACK_MODE_SPECTRAL, PLAYBACK_MODE_SPECTRAL_CLOUD,
                                   PLAYBACK_MODE_RESONESTOR, PLAYBACK_MODE_OLIVERB} \<and>
      previous_playback_mode s \<noteq> PLAYBACK_MODE_LAST) \<and>
   (playback_mode_changed s \<and> benign_change s \<and> \<not> reset_buffers s \<longrightarrow>
      Prepare W s =
        Some (s\<lparr>previous_playback_mode := playback_mode s,
                calls := calls s @ filter_inits @ [Call PitchShifter ''Clear'' []] @
                  (if playback_mode s = PLAYBACK_MODE_STRETCH
                   then [Call WsPlayer ''LoadCorrelator''
                           [AInt (if resolution s = 8 then 8 else 16)],
                         Call Correlator ''EvaluateSomeCandidates'' []]
                   else [])\<rparr>)) \<and>
   ((playback_mode_changed s \<and> \<not> benign_change s) \<or> reset_buffers s \<longrightarrow>
      (\<forall>s'. Prepare W s = Some s' \<longrightarrow>
         \<not> freeze (parameters s') \<and> \<not> reset_buffers s' \<and>
         previous_playback_mode s' = playback_mode s \<and>
         calls s' = calls s @ workspace_calls W s (partition_of s) @
           engine_init_calls W s @ priming s)) \<and>
   (num_channels s \<le> 2 \<longrightarrow> (\<exists>s'. Prepare W s = Some s'))"
proof -
  have a: "benign_change s \<longleftrightarrow>
      playback_mode s \<notin> {PLAYBACK_MODE_SPECTRAL, PLAYBACK_MODE_SPECTRAL_CLOUD,
                          PLAYBACK_MODE_RESONESTOR, PLAYBACK_MODE_OLIVERB} \<and>
      previous_playback_mode s \<notin> {PLAYBACK_MODE_SPECTRAL, PLAYBACK_MODE_SPECTRAL_CLOUD,
                                   PLAYBACK_MODE_RESONESTOR, PLAYBACK_MODE_OLIVERB} \<and>
      previous_playback_mode s \<noteq> PLAYBACK_MODE_LAST"
    unfolding benign_change_def by auto
  have b: "playback_mode_changed s \<and> benign_change s \<and> \<not> reset_buffers s \<longrightarrow>
      Prepare W s =
        Some (s\<lparr>previous_playback_mode := playback_mode s,
                calls := calls s @ filter_inits @ [Call PitchShifter ''Clear'' []] @
                  (if playback_mode s = PLAYBACK_MODE_STRETCH
                   then [Call WsPlayer ''LoadCorrelator''
                           [AInt (if resolution s = 8 then 8 else 16)],
                         Call Correlator ''EvaluateSomeCandidates'' []]
                   else [])\<rparr>)"
    using Prepare_benign [of s W] by blast
  have c: "(playback_mode_changed s \<and> \<not> benign_change s) \<or> reset_buffers s \<longrightarrow>
      (\<forall>s'. Prepare W s = Some s' \<longrightarrow>
         \<not> freeze (parameters s') \<and> \<not> reset_buffers s' \<and>
         previous_playback_mode s' = playback_mode s \<and>
         calls s' = calls s @ workspace_calls W s (partition_of s) @
           engine_init_calls W s @ priming s)"
    using Prepare_structural [of s W] Prepare_frame [of W s] by blast
  have d: "num_channels s \<le> 2 \<longrightarrow> (\<exists>s'. Prepare W s = Some s')"
    using Prepare_Some [of s W] by blast
  show ?thesis by (intro conjI a b c d)
qed

theorem Prepare_transitions_witness:
  "Prepare quiet_world stretch_bench =
     Some (stretch_bench
       \<lparr>previous_playback_mode := PLAYBACK_MODE_STRETCH,
        calls := calls stretch_bench @ filter_inits @
          [Call PitchShifter ''Clear'' [],
           Call WsPlayer ''LoadCorrelator'' [AInt 16],
           Call Correlator ''EvaluateSomeCandidates'' []]\<rparr>) \<and>
   (\<exists>s'. Prepare quiet_world bench = Some s' \<and> \<not> freeze (parameters s') \<and>
      \<not> reset_buffers s' \<and> previous_playback_mode s' = PLAYBACK_MODE_GRANULAR)"
proof -
  note t1 = Prepare_transitions [of stretch_bench quiet_world]
  note t2 = Prepare_transitions [of bench quiet_world]
  from t1 stretch_bench_fields have one:
    "Prepare quiet_world stretch_bench =
     Some (stretch_bench
       \<lparr>previous_playback_mode := PLAYBACK_MODE_STRETCH,
        calls := calls stretch_bench @ filter_inits @
          [Call PitchShifter ''Clear'' [],
           Call WsPlayer ''LoadCorrelator'' [AInt 16],
           Call Correlator ''EvaluateSomeCandidates'' []]\<rparr>)"
    by simp
  from t2 obtain s' where run: "Prepare quiet_world bench = Some s'"
    by (auto simp: bench_fields)
  with t2 have "\<not> freeze (parameters s') \<and> \<not> reset_buffers s' \<and>
      previous_playback_mode s' = PLAYBACK_MODE_GRANULAR"
    by (simp add: bench_fields)
  with one run show ?thesis by blast
qed

text \<open>
  The statement of C4 fails where it says that a benign transition only resets the filters
  and clears the pitch shifter: on the transition from GRANULAR to STRETCH the correlator is
  reloaded and candidates are evaluated as well.
\<close>

theorem benign_prepare_counterexample:
  "playback_mode_changed stretch_bench \<and> benign_change stretch_bench \<and>
   \<not> reset_buffers stretch_bench \<and>
   Prepare quiet_world stretch_bench =
     Some (stretch_bench
       \<lparr>previous_playback_mode := PLAYBACK_MODE_STRETCH,
        calls := calls stretch_bench @ filter_inits @
          [Call PitchShifter ''Clear'' [],
           Call WsPlayer ''LoadCorrelator'' [AInt 16],
           Call Correlator ''EvaluateSomeCandidates'' []]\<rparr>) \<and>
   Prepare quiet_world stretch_bench \<noteq>
     Some (stretch_bench
       \<lparr>previous_playback_mode := PLAYBACK_MODE_STRETCH,
        calls := calls stretch_bench @ filter_inits @ [Call PitchShifter ''Clear'' []]\<rparr>)"
proof -
  have e: "Prepare quiet_world stretch_bench =
     Some (stretch_bench
       \<lparr>previous_playback_mode := PLAYBACK_MODE_STRETCH,
        calls := calls stretch_bench @ filter_inits @
          [Call PitchShifter ''Clear'' [],
           Call WsPlayer ''LoadCorrelator'' [AInt 16],
           Call Correlator ''EvaluateSomeCandidates'' []]\<rparr>)"
    unfolding Prepare_benign [OF stretch_bench_fields(1,2,3)]
    by (simp add: stretch_bench_fields)
  have "calls (stretch_bench
       \<lparr>previous_playback_mode := PLAYBACK_MODE_STRETCH,
        calls := calls stretch_bench @ filter_inits @
          [Call PitchShifter ''Clear'' [],
           Call WsPlayer ''LoadCorrelator'' [AInt 16],
           Call Correlator ''EvaluateSomeCandidates'' []]\<rparr>) \<noteq>
     calls (stretch_bench
       \<lparr>previous_playback_mode := PLAYBACK_MODE_STRETCH,
        calls := calls stretch_bench @ filter_inits @ [Call PitchShifter ''Clear'' []]\<rparr>)"
    by simp
  then have "stretch_bench
       \<lparr>previous_playback_mode := PLAYBACK_MODE_STRETCH,
        calls := calls stretch_bench @ filter_inits @
          [Call PitchShifter ''Clear'' [],
           Call WsPlayer ''LoadCorrelator'' [AInt 16],
           Call Correlator ''EvaluateSomeCandidates'' []]\<rparr> \<noteq>
     stretch_bench
       \<lparr>previous_playback_mode := PLAYBACK_MODE_STRETCH,
        calls := calls stretch_bench @ filter_inits @ [Call PitchShifter ''Clear'' []]\<rparr>"
    by metis
  with e stretch_bench_fields(1,2,3) show ?thesis by simp
qed

subsection \<open>Persistence\<close>


lemma state_words_roundtrip: "state_of_words (state_words p @ ws) = p"
proof (cases p)
  case (fields a b q sp pd)
  have "(ucast (ucast q OR push_bit 8 (ucast sp :: 32 word) OR
             push_bit 16 (ucast pd :: 32 word) :: 32 word) :: 8 word) = q"
    by (rule bit_word_eqI) (auto simp: bit_simps)
  moreover have "(ucast (drop_bit 8 (ucast q OR push_bit 8 (ucast sp :: 32 word) OR
             push_bit 16 (ucast pd :: 32 word) :: 32 word)) :: 8 word) = sp"
    by (rule bit_word_eqI) (auto simp: bit_simps dest: bit_imp_le_length)
  moreover have "(ucast (drop_bit 16 (ucast q OR push_bit 8 (ucast sp :: 32 word) OR
             push_bit 16 (ucast pd :: 32 word) :: 32 word)) :: 16 word) = pd"
    by (rule bit_word_eqI) (auto simp: bit_simps dest: bit_imp_le_length)
  ultimately show ?thesis
    unfolding fields state_of_words_def state_words_def
    by (simp only: PersistentState.simps append_Cons nth_Cons_0 nth_Cons_Suc
        One_nat_def numeral_2_eq_2)
qed

lemma quality_roundtrip:
  "num_channels s = 1 \<or> num_channels s = 2 \<Longrightarrow>
   (if (ucast (ucast (quality_code s) :: 8 word) :: 32 word) AND 1 \<noteq> 0 then 1 else 2) = num_channels s \<and>
   (drop_bit 1 (ucast (ucast (quality_code s) :: 8 word) :: 32 word) \<noteq> 0) = low_fidelity s"
  by (auto simp: quality_code_def Let_def)

lemma GetPersistentData_first:
  "GetPersistentData s = Some block \<Longrightarrow>
   block \<noteq> [] \<and> data (block ! 0) = StateBlock \<and> size_b (block ! 0) = 12 \<and>
   tag (block ! 0) = FourCC CHR ''S'' CHR ''t'' CHR ''a'' CHR ''t''"
  by (auto simp: GetPersistentData_def sizeof_PersistentState_def split: if_splits)

lemma GetPersistentData_Some:
  "num_channels s \<le> 2 \<Longrightarrow> \<exists>block. GetPersistentData s = Some block"
  by (simp add: GetPersistentData_def)

lemma restore_mode_channels:
  "num_channels (restore_mode s) \<le> 2"
  by (simp add: restore_mode_def Let_def set_quality_def set_low_fidelity_def
      set_num_channels_def set_playback_mode_def)

lemma load_block_first:
  assumes "GetPersistentData s = Some block"
    and "d0 = tag (block ! 0)" and "d1 = size_b (block ! 0)" and "3 \<le> length rest"
  shows "\<exists>s2 block'.
     Prepare W (restore_mode (s\<lparr>persistent_state := state_of_words rest\<rparr>)) = Some s2 \<and>
     GetPersistentData s2 = Some block' \<and>
     load_block W block 0 (d0 # d1 # rest) s = Some (Next block' (drop 3 rest) s2)"
proof -
  note g = GetPersistentData_first [OF assms(1)]
  obtain s2 where
    p: "Prepare W (restore_mode (s\<lparr>persistent_state := state_of_words rest\<rparr>)) = Some s2"
    using Prepare_Some [OF restore_mode_channels] by blast
  from Prepare_frame [OF p] restore_mode_channels
  have "num_channels s2 \<le> 2" by simp
  then obtain block' where b: "GetPersistentData s2 = Some block'"
    using GetPersistentData_Some by blast
  have m: "memcpy_block (block ! 0) rest s = s\<lparr>persistent_state := state_of_words rest\<rparr>"
    by (simp add: memcpy_block_def g)
  have "load_block W block 0 (d0 # d1 # rest) s = Some (Next block' (drop 3 rest) s2)"
    using assms(2,3,4) by (simp add: load_block_def Let_def m p b g)
  with p b show ?thesis by blast
qed

lemma load_loop_step:
  "i < length block \<Longrightarrow> load_block W block i stream s = Some (Next block' stream' s') \<Longrightarrow>
   load_loop W block i stream s = load_loop W block' (Suc i) stream' s'"
  by (subst load_loop.simps) simp

lemma load_loop_mismatch:
  "i < length block \<Longrightarrow> load_block W block i stream s = Some Mismatch \<Longrightarrow>
   load_loop W block i stream s = Some (False, s\<lparr>silence := False\<rparr>)"
  by (subst load_loop.simps) simp

lemma load_loop_done:
  "\<not> i < length block \<Longrightarrow> load_loop W block i stream s = Some (True, load_finish s)"
  by (subst load_loop.simps) simp

lemma loop_head_run:
  "loop_head W stream s i = Some (block, d, t) \<Longrightarrow>
   LoadPersistentData W stream s = load_loop W block i d t"
proof (induction i arbitrary: block d t)
  case 0
  then show ?case
    by (auto simp: LoadPersistentData_def Let_def split: option.splits)
next
  case (Suc i)
  from Suc.prems obtain b0 d0 t0 where
    h: "loop_head W stream s i = Some (b0, d0, t0)" and
    less: "i < length b0" and
    step: "load_block W b0 i d0 t0 = Some (Next block d t)"
    by (auto split: option.splits if_splits step.splits)
  from Suc.IH [OF h] load_loop_step [OF less step] show ?case by simp
qed

text \<open>
  C2. Let the load of a stream reach the head of iteration \<open>i\<close> with block list
  \<open>block\<close>, the stream positioned at the words \<open>d0\<close>, \<open>d1\<close> and the state
  \<open>t\<close>, which holds what the blocks before \<open>i\<close> have copied. If the tag of the
  expected block \<open>i\<close> differs from \<open>d0\<close> or its size differs from \<open>d1\<close>, then
  \<^verbatim>\<open>LoadPersistentData\<close> returns false, and the state it leaves is \<open>t\<close> with
  the silence flag cleared: neither block \<open>i\<close> nor a later block has been copied.
\<close>

theorem load_format_validation:
  assumes "loop_head W stream s i = Some (block, d0 # d1 # rest, t)"
    and "i < length block"
    and "tag (block ! i) \<noteq> d0 \<or> size_b (block ! i) \<noteq> d1"
  shows "LoadPersistentData W stream s = Some (False, t\<lparr>silence := False\<rparr>)"
proof -
  from assms(3) have "load_block W block i (d0 # d1 # rest) t = Some Mismatch"
    by (auto simp: load_block_def)
  from load_loop_mismatch [OF assms(2) this] loop_head_run [OF assms(1)]
  show ?thesis by simp
qed







lemma set_quality_fields:
  "playback_mode (set_quality q s) = playback_mode s \<and>
   num_channels (set_quality q s) = (if q AND 1 \<noteq> 0 then 1 else 2) \<and>
   low_fidelity (set_quality q s) = (drop_bit 1 q \<noteq> 0) \<and>
   calls (set_quality q s) = calls s \<and>
   persistent_state (set_quality q s) = persistent_state s \<and>
   buffer_size (set_quality q s) = buffer_size s \<and>
   silence (set_quality q s) = silence s"
  by (simp add: set_quality_def set_low_fidelity_def set_num_channels_def)


lemma GetPersistentData_cong:
  "num_channels s' = num_channels s \<Longrightarrow> buffer_size s' = buffer_size s \<Longrightarrow>
   GetPersistentData s' = GetPersistentData s"
  by (simp add: GetPersistentData_def)

lemma restore_mode_same:
  assumes "currently_spectral s = spectral (persistent_state s)"
  shows "restore_mode s = set_quality (ucast (quality (persistent_state s))) s"
  using assms by (simp add: restore_mode_def Let_def)

lemma load_block_buffer:
  assumes "0 < i" and "data (block ! i) = BufferBlock j" and "size_b (block ! i) = sz"
    and "tag (block ! i) = tg" and "4 dvd unat sz" and "length P = unat sz div 4"
  shows "load_block W block i (tg # sz # P @ ws) s =
     Some (Next block ws
       (log_calls [Call Memory ''memcpy'' [APtr j 0, AWords P, AInt (uint sz)]] s))"
proof -
  from assms(5) obtain n where n: "unat sz = 4 * n" by (auto elim!: dvdE)
  then have k: "(unat sz + 3) div 4 = n" and d: "unat sz div 4 = n" by simp_all
  from assms(6) d have lp: "length P = n" by simp
  have tk: "take n (P @ ws) = P" and dr: "drop n (P @ ws) = ws"
    by (simp_all add: lp)
  have m: "memcpy_block (block ! i) (P @ ws) s =
       log_calls [Call Memory ''memcpy'' [APtr j 0, AWords P, AInt (uint sz)]] s"
    unfolding memcpy_block_def assms(2,3) k tk by simp
  have chk: "\<not> length (P @ ws) * 4 < unat sz"
    by (simp add: n lp)
  show ?thesis
    unfolding load_block_def list.case assms(3,4) d dr m Let_def
    using assms(1) chk by simp
qed

lemma PreparePersistentData_fields:
  "num_channels (PreparePersistentData s) = num_channels s \<and>
   buffer_size (PreparePersistentData s) = buffer_size s \<and>
   write_head0 (persistent_state (PreparePersistentData s)) =
     (if low_fidelity s then head (fst (buffer_8 s)) else head (fst (buffer_16 s))) \<and>
   write_head1 (persistent_state (PreparePersistentData s)) =
     (if low_fidelity s then head (snd (buffer_8 s)) else head (snd (buffer_16 s))) \<and>
   quality (persistent_state (PreparePersistentData s)) = ucast (quality_code s) \<and>
   spectral (persistent_state (PreparePersistentData s)) = currently_spectral s"
  by (simp add: PreparePersistentData_def currently_spectral_def)

lemma load_finish_fields:
  "head (fst (if low_fidelity (load_finish s) then buffer_8 (load_finish s)
              else buffer_16 (load_finish s))) = write_head0 (persistent_state s) \<and>
   head (snd (if low_fidelity (load_finish s) then buffer_8 (load_finish s)
              else buffer_16 (load_finish s))) = write_head1 (persistent_state s) \<and>
   low_fidelity (load_finish s) = low_fidelity s \<and>
   num_channels (load_finish s) = num_channels s \<and>
   playback_mode (load_finish s) = playback_mode s \<and>
   persistent_state (load_finish s) = persistent_state s \<and>
   freeze (parameters (load_finish s)) \<and> \<not> silence (load_finish s)"
  by (simp add: load_finish_def resync_heads_def Let_def head_def Resync_def)

text \<open>
  C1. Let the save blocks of a processor \<open>s\<close> with one or two channels be written to
  a stream, with buffer blocks whose size is a multiple of four bytes and regions that hold
  that many bytes. If the stream, followed by any further words, is loaded into a processor
  in the same playback mode and with the same region sizes, then
  \<^verbatim>\<open>LoadPersistentData\<close> returns true, the write heads of the active ring
  buffers equal the heads recorded at save time, the fidelity, the channel count and the
  mode are those of \<open>s\<close>, the stored spectral indicator equals the one recomputed from
  the mode, freeze is enabled and the silence flag is cleared.
\<close>

theorem persistence_round_trip:
  assumes nc: "num_channels s = 1 \<or> num_channels s = 2"
    and al: "4 dvd unat (nth2 (buffer_size s) (nat (num_channels s - 1)))"
    and mem: "\<forall>i < nat (num_channels s).
                unat (nth2 (buffer_size s) (nat (num_channels s - 1))) \<le> 4 * length (mem i)"
    and sv: "save_stream mem (PreparePersistentData s) = Some stream"
    and tm: "playback_mode t = playback_mode s"
    and tb: "buffer_size t = buffer_size s"
    and tc: "num_channels t \<le> 2"
  shows "\<exists>t'. LoadPersistentData W (stream @ ws) t = Some (True, t') \<and>
     head (fst (if low_fidelity t' then buffer_8 t' else buffer_16 t')) =
       (if low_fidelity s then head (fst (buffer_8 s)) else head (fst (buffer_16 s))) \<and>
     head (snd (if low_fidelity t' then buffer_8 t' else buffer_16 t')) =
       (if low_fidelity s then head (snd (buffer_8 s)) else head (snd (buffer_16 s))) \<and>
     low_fidelity t' = low_fidelity s \<and> num_channels t' = num_channels s \<and>
     playback_mode t' = playback_mode s \<and>
     spectral (persistent_state t') = currently_spectral t' \<and>
     freeze (parameters t') \<and> \<not> silence t'"
proof -
  define ps where "ps = persistent_state (PreparePersistentData s)"
  define sz where "sz = nth2 (buffer_size s) (nat (num_channels s - 1))"
  define tg where "tg = FourCC CHR ''b'' CHR ''u'' CHR ''f'' CHR ''f''"
  define n where "n = unat sz div 4"
  define P where "P = (\<lambda>i. take n (mem i))"
  define bb where "bb = (\<lambda>i. \<lparr>tag = tg, data = BufferBlock i, size_b = sz\<rparr>)"
  define sb where "sb = \<lparr>tag = FourCC CHR ''S'' CHR ''t'' CHR ''a'' CHR ''t'',
    data = StateBlock, size_b = sizeof_PersistentState\<rparr>"
  define t1 where "t1 = t\<lparr>silence := True\<rparr>"
  note pf = PreparePersistentData_fields [of s]
  from al have k: "(unat sz + 3) div 4 = n" by (auto simp: sz_def n_def elim!: dvdE)
  have lenP: "length (P i) = unat sz div 4" if "i < nat (num_channels s)" for i
  proof -
    from mem that have "unat sz \<le> 4 * length (mem i)" by (simp add: sz_def)
    then have "n \<le> length (mem i)" by (simp add: n_def)
    then show ?thesis by (simp add: P_def n_def)
  qed
  have blocks: "GetPersistentData u = Some (sb # map bb [0..<nat (num_channels s)])"
    if "num_channels u = num_channels s" "buffer_size u = buffer_size s" for u
    using that nc by (auto simp: GetPersistentData_def sb_def bb_def sz_def tg_def)
  have payload: "save_block mem (PreparePersistentData s) (bb i) = tg # sz # P i" for i
    by (simp add: save_block_def bb_def P_def k)
  have stream: "stream = tag sb # size_b sb #
      (state_words ps @ concat (map (\<lambda>i. tg # sz # P i) [0..<nat (num_channels s)]))"
  proof -
    have "GetPersistentData (PreparePersistentData s) =
        Some (sb # map bb [0..<nat (num_channels s)])"
      by (rule blocks) (simp_all add: pf)
    with sv have "stream = concat (map (save_block mem (PreparePersistentData s))
        (sb # map bb [0..<nat (num_channels s)]))"
      by (simp add: save_stream_def)
    then show ?thesis
      by (simp add: payload comp_def) (simp add: save_block_def sb_def ps_def)
  qed
  obtain block0 where g0: "GetPersistentData t1 = Some block0"
    using GetPersistentData_Some [of t1] tc by (auto simp: t1_def)
  note first = GetPersistentData_first [OF g0]
  define rest where "rest = state_words ps @
      concat (map (\<lambda>i. tg # sz # P i) [0..<nat (num_channels s)]) @ ws"
  have hdr: "tag sb = tag (block0 ! 0)" "size_b sb = size_b (block0 ! 0)"
    using first by (simp_all add: sb_def sizeof_PersistentState_def)
  have l3: "3 \<le> length rest" by (simp add: rest_def state_words_def)
  have sw: "state_of_words rest = ps"
    unfolding rest_def by (rule state_words_roundtrip)
  have d3: "drop 3 rest = concat (map (\<lambda>i. tg # sz # P i) [0..<nat (num_channels s)]) @ ws"
    by (simp add: rest_def state_words_def)
  from load_block_first [OF g0 hdr l3, of W] obtain s2 block' where
    p: "Prepare W (restore_mode (t1\<lparr>persistent_state := ps\<rparr>)) = Some s2" and
    b: "GetPersistentData s2 = Some block'" and
    st: "load_block W block0 0 (tag sb # size_b sb # rest) t1 =
           Some (Next block' (drop 3 rest) s2)"
    by (auto simp: sw)
  define u where "u = t1\<lparr>persistent_state := ps\<rparr>"
  have "currently_spectral u = currently_spectral s"
    using tm by (simp add: u_def t1_def currently_spectral_def)
  then have "currently_spectral u = spectral (persistent_state u)"
    by (simp add: u_def ps_def pf)
  from restore_mode_same [OF this]
  have rm: "restore_mode u = set_quality (ucast (ucast (quality_code s) :: 8 word)) u"
    by (simp add: u_def ps_def pf)
  note q = quality_roundtrip [OF nc]
  note f = Prepare_frame [OF p [folded u_def]]
  have s2f: "playback_mode s2 = playback_mode s" "num_channels s2 = num_channels s"
    "low_fidelity s2 = low_fidelity s" "buffer_size s2 = buffer_size s"
    "persistent_state s2 = ps"
    using f q tm tb unfolding rm by (simp_all add: set_quality_fields u_def t1_def)
  from b blocks [OF s2f(2) s2f(4)]
  have b': "block' = sb # map bb [0..<nat (num_channels s)]" by simp
  from first have ne: "0 < length block0" by simp
  have run0: "LoadPersistentData W (stream @ ws) t =
      load_loop W block' 1 (concat (map (\<lambda>i. tg # sz # P i) [0..<nat (num_channels s)]) @ ws) s2"
  proof -
    have strm: "stream @ ws = tag sb # size_b sb # rest"
      by (simp add: stream rest_def)
    have "LoadPersistentData W (stream @ ws) t =
        load_loop W block0 0 (tag sb # size_b sb # rest) t1"
      unfolding strm using g0 by (simp add: LoadPersistentData_def Let_def t1_def)
    also have "\<dots> = load_loop W block' (Suc 0) (drop 3 rest) s2"
      by (rule load_loop_step [OF ne st])
    finally show ?thesis by (simp only: d3 One_nat_def)
  qed
  have al': "4 dvd unat sz" using al by (simp add: sz_def)
  have fin: "\<exists>t'. load_loop W block' 1
        (concat (map (\<lambda>i. tg # sz # P i) [0..<nat (num_channels s)]) @ ws) s2 =
        Some (True, load_finish t') \<and>
      low_fidelity t' = low_fidelity s2 \<and> num_channels t' = num_channels s2 \<and>
      playback_mode t' = playback_mode s2 \<and> persistent_state t' = persistent_state s2"
  proof -
    from nc consider (mono) "num_channels s = 1" | (stereo) "num_channels s = 2" by blast
    then show ?thesis
    proof cases
      case mono
      then have ix: "[0..<nat (num_channels s)] = [0]" by simp
      have blk: "block' = [sb, bb 0]" by (simp add: b' ix)
      define s3 where
        "s3 = log_calls [Call Memory ''memcpy'' [APtr 0 0, AWords (P 0), AInt (uint sz)]] s2"
      have step1: "load_block W block' 1 (tg # sz # P 0 @ ws) s2 = Some (Next block' ws s3)"
        unfolding s3_def
        by (rule load_block_buffer) (simp_all add: blk bb_def al' lenP mono)
      have "load_loop W block' 1 (tg # sz # P 0 @ ws) s2 = Some (True, load_finish s3)"
        using load_loop_step [OF _ step1] load_loop_done [of "Suc 1" block' W ws s3]
        by (simp add: blk)
      then show ?thesis
        by (intro exI [of _ s3]) (simp add: ix s3_def log_calls_def)
    next
      case stereo
      then have ix: "[0..<nat (num_channels s)] = [0, Suc 0]"
        by (simp add: upt_rec numeral_2_eq_2)
      have blk: "block' = [sb, bb 0, bb (Suc 0)]" by (simp add: b' ix)
      define s3 where
        "s3 = log_calls [Call Memory ''memcpy'' [APtr 0 0, AWords (P 0), AInt (uint sz)]] s2"
      define s4 where
        "s4 = log_calls [Call Memory ''memcpy'' [APtr (Suc 0) 0, AWords (P (Suc 0)), AInt (uint sz)]] s3"
      have step1: "load_block W block' 1 (tg # sz # P 0 @ (tg # sz # P (Suc 0) @ ws)) s2 =
          Some (Next block' (tg # sz # P (Suc 0) @ ws) s3)"
        unfolding s3_def
        by (rule load_block_buffer) (simp_all add: blk bb_def al' lenP stereo)
      have step2: "load_block W block' 2 (tg # sz # P (Suc 0) @ ws) s3 = Some (Next block' ws s4)"
        unfolding s4_def
        by (rule load_block_buffer) (simp_all add: blk bb_def al' lenP stereo)
      have "load_loop W block' 1 (tg # sz # P 0 @ (tg # sz # P (Suc 0) @ ws)) s2 =
          Some (True, load_finish s4)"
        using load_loop_step [OF _ step1] load_loop_step [OF _ step2]
          load_loop_done [of 3 block' W ws s4]
        by (simp add: blk numeral_2_eq_2 numeral_3_eq_3)
      then show ?thesis
        by (intro exI [of _ s4]) (simp add: ix s4_def s3_def log_calls_def)
    qed
  qed
  then obtain t' where
    r: "LoadPersistentData W (stream @ ws) t = Some (True, load_finish t')" and
    tf: "low_fidelity t' = low_fidelity s" "num_channels t' = num_channels s"
      "playback_mode t' = playback_mode s" "persistent_state t' = ps"
    using run0 s2f by auto
  note lf = load_finish_fields [of t']
  have w0: "write_head0 ps =
      (if low_fidelity s then head (fst (buffer_8 s)) else head (fst (buffer_16 s)))"
    and w1: "write_head1 ps =
      (if low_fidelity s then head (snd (buffer_8 s)) else head (snd (buffer_16 s)))"
    and sp0: "spectral ps = currently_spectral s"
    by (simp_all add: ps_def pf)
  have h0: "head (fst (if low_fidelity (load_finish t') then buffer_8 (load_finish t')
              else buffer_16 (load_finish t'))) =
      (if low_fidelity s then head (fst (buffer_8 s)) else head (fst (buffer_16 s)))"
    by (simp only: lf [THEN conjunct1] tf(4) w0)
  have h1: "head (snd (if low_fidelity (load_finish t') then buffer_8 (load_finish t')
              else buffer_16 (load_finish t'))) =
      (if low_fidelity s then head (snd (buffer_8 s)) else head (snd (buffer_16 s)))"
    by (simp only: lf [THEN conjunct2, THEN conjunct1] tf(4) w1)
  have lo: "low_fidelity (load_finish t') = low_fidelity s"
    and ch: "num_channels (load_finish t') = num_channels s"
    and pm: "playback_mode (load_finish t') = playback_mode s"
    and fz: "freeze (parameters (load_finish t'))"
    and si: "\<not> silence (load_finish t')"
    using lf tf by simp_all
  have "currently_spectral (load_finish t') = currently_spectral s"
    using pm by (simp add: currently_spectral_def)
  moreover have "spectral (persistent_state (load_finish t')) = spectral ps"
    using lf tf(4) by simp
  ultimately have sp:
    "spectral (persistent_state (load_finish t')) = currently_spectral (load_finish t')"
    using sp0 by simp
  show ?thesis
    by (rule exI [of _ "load_finish t'"]) (intro conjI r h0 h1 lo ch pm sp fz si)
qed

lemma state_of_words_example:
  "spectral (state_of_words [5, 7, 769]) = 3" "quality (state_of_words [5, 7, 769]) = 1"
  "spectral (state_of_words [5, 7, 0, a, b, c, d]) = 0"
  "quality (state_of_words [5, 7, 0, a, b, c, d]) = 0"
  by (simp_all add: state_of_words_def)

lemma restore_mode_fields:
  "num_channels (restore_mode s) =
     (if (ucast (quality (persistent_state s)) :: 32 word) AND 1 \<noteq> 0 then 1 else 2) \<and>
   low_fidelity (restore_mode s) =
     (drop_bit 1 (ucast (quality (persistent_state s)) :: 32 word) \<noteq> 0) \<and>
   buffer_size (restore_mode s) = buffer_size s"
  by (simp add: restore_mode_def Let_def set_quality_fields set_playback_mode_def)

theorem persistence_round_trip_witness:
  "\<exists>stream t'.
     save_stream (\<lambda>i. [1, 2]) (PreparePersistentData head_bench) = Some stream \<and>
     LoadPersistentData quiet_world stream bench = Some (True, t') \<and>
     head (fst (buffer_16 t')) = 5 \<and> head (snd (buffer_16 t')) = 7 \<and>
     \<not> low_fidelity t' \<and> freeze (parameters t') \<and> \<not> silence t'"
proof -
  have f: "num_channels head_bench = 2" "buffer_size head_bench = (16, 8)"
    "low_fidelity head_bench = False" "playback_mode head_bench = playback_mode bench"
    "buffer_16 head_bench = (\<lparr>write_head = 5\<rparr>, \<lparr>write_head = 7\<rparr>)"
    by (simp_all add: head_bench_def bench_fields)
  have nc: "num_channels head_bench = 1 \<or> num_channels head_bench = 2" by (simp add: f)
  have sz: "nth2 (buffer_size head_bench) (nat (num_channels head_bench - 1)) = 8"
    by (simp add: f nth2_def)
  have al: "4 dvd unat (nth2 (buffer_size head_bench) (nat (num_channels head_bench - 1)))"
    unfolding sz by simp
  have mem: "\<forall>i < nat (num_channels head_bench).
      unat (nth2 (buffer_size head_bench) (nat (num_channels head_bench - 1)))
        \<le> 4 * length ((\<lambda>i. [1, 2 :: 32 word]) i)"
    unfolding sz by simp
  obtain stream where
    sv: "save_stream (\<lambda>i. [1, 2]) (PreparePersistentData head_bench) = Some stream"
    by (simp add: save_stream_def GetPersistentData_def PreparePersistentData_def f)
  have tm: "playback_mode bench = playback_mode head_bench" by (simp add: f)
  have tb: "buffer_size bench = buffer_size head_bench" by (simp add: f bench_fields)
  have tc: "num_channels bench \<le> 2" by (simp add: bench_fields)
  from persistence_round_trip [OF nc al mem sv tm tb tc, of quiet_world "[]"]
  obtain t' where
    "LoadPersistentData quiet_world stream bench = Some (True, t')"
    "head (fst (if low_fidelity t' then buffer_8 t' else buffer_16 t')) = 5"
    "head (snd (if low_fidelity t' then buffer_8 t' else buffer_16 t')) = 7"
    "\<not> low_fidelity t'" "freeze (parameters t')" "\<not> silence t'"
    by (auto simp: f head_def)
  with sv show ?thesis by auto
qed


theorem load_format_validation_witness:
  "\<exists>block t.
     loop_head quiet_world
       [FourCC CHR ''S'' CHR ''t'' CHR ''a'' CHR ''t'', 12, 5, 7, 0,
        FourCC CHR ''b'' CHR ''u'' CHR ''f'' CHR ''f'', 9, 1, 2] bench 1 =
       Some (block, [FourCC CHR ''b'' CHR ''u'' CHR ''f'' CHR ''f'', 9, 1, 2], t) \<and>
     LoadPersistentData quiet_world
       [FourCC CHR ''S'' CHR ''t'' CHR ''a'' CHR ''t'', 12, 5, 7, 0,
        FourCC CHR ''b'' CHR ''u'' CHR ''f'' CHR ''f'', 9, 1, 2] bench =
       Some (False, t\<lparr>silence := False\<rparr>)"
proof -
  define tgs where "tgs = FourCC CHR ''S'' CHR ''t'' CHR ''a'' CHR ''t''"
  define tgb where "tgb = FourCC CHR ''b'' CHR ''u'' CHR ''f'' CHR ''f''"
  define t1 where "t1 = bench\<lparr>silence := True\<rparr>"
  obtain block0 where g: "GetPersistentData t1 = Some block0"
    using GetPersistentData_Some [of t1] by (auto simp: bench_fields t1_def)
  note first = GetPersistentData_first [OF g]
  have d0: "tgs = tag (block0 ! 0)" and d1: "12 = size_b (block0 ! 0)"
    using first by (simp_all add: tgs_def)
  have l3: "3 \<le> length [5, 7, 0, tgb, 9, 1, 2 :: 32 word]" by simp
  from load_block_first [OF g d0 d1 l3, of quiet_world] obtain s2 block' where
    p: "Prepare quiet_world
          (restore_mode (t1\<lparr>persistent_state := state_of_words [5, 7, 0, tgb, 9, 1, 2]\<rparr>)) =
        Some s2" and
    b: "GetPersistentData s2 = Some block'" and
    st: "load_block quiet_world block0 0 [tgs, 12, 5, 7, 0, tgb, 9, 1, 2] t1 =
           Some (Next block' [tgb, 9, 1, 2] s2)"
    by auto
  note rf = restore_mode_fields
    [of "t1\<lparr>persistent_state := state_of_words [5, 7, 0, tgb, 9, 1, 2]\<rparr>"]
  from Prepare_frame [OF p] rf
  have s2f: "num_channels s2 = 2" "buffer_size s2 = (16, 8)"
    by (simp_all add: state_of_words_example t1_def bench_fields)
  from b s2f have len: "1 < length block'" and sz: "size_b (block' ! 1) \<noteq> 9"
    by (auto simp: GetPersistentData_def nth2_def upt_rec numeral_2_eq_2)
  from first have ne: "0 < length block0" by simp
  have lh: "loop_head quiet_world [tgs, 12, 5, 7, 0, tgb, 9, 1, 2] bench 1 =
      Some (block', [tgb, 9, 1, 2], s2)"
    using g st ne by (simp add: t1_def)
  from sz have "tag (block' ! 1) \<noteq> tgb \<or> size_b (block' ! 1) \<noteq> 9" by simp
  from load_format_validation [OF lh len this] lh show ?thesis
    unfolding tgs_def tgb_def by blast
qed

subsection \<open>The pitch-shift crossfade\<close>

text \<open>
  The stages of \<^verbatim>\<open>Process\<close> keep the parameters and the mode and only add calls,
  so a call logged by one stage is in the log at the end of the block.
\<close>

lemma keeps_refl: "keeps s s"
  by (simp add: keeps_def)

lemma keeps_trans: "keeps s s' \<Longrightarrow> keeps s' s'' \<Longrightarrow> keeps s s''"
  by (auto simp: keeps_def)

lemma keeps_log_calls: "keeps s (log_calls cs s)"
  by (auto simp: keeps_def log_calls_def)

lemma keeps_pre:
  "keeps s (mixdown sz (mute_input sz (convert_input input sz s)))"
  by (simp add: keeps_def mixdown_def mute_input_def convert_input_def case_prod_unfold)

lemma keeps_engine_writes: "keeps (fst sb) (fst (engine_writes W c n sb))"
  by (cases sb) (auto simp: keeps_def engine_writes_def log_calls_def)

lemma keeps_engine_process: "keeps (fst sb) (fst (engine_process W e n sb))"
  unfolding engine_process_def by (rule keeps_engine_writes)

lemma keeps_Play: "keeps (fst sb) (fst (Play W e p n sb))"
  unfolding Play_def by (rule keeps_engine_writes)

lemma keeps_on_out: "keeps s (on_out W e sz s)"
  using keeps_engine_process [of "(s, out_m s)" W e sz]
  by (simp add: on_out_def case_prod_unfold keeps_def)

lemma keeps_filter_process: "keeps (fst sb) (fst (filter_process W e fm left sz sb))"
  by (cases sb) (auto simp: keeps_def filter_process_def log_calls_def Let_def)

lemma keeps_feedback_filter: "keeps s (feedback_filter W sz s)"
proof -
  define s0 where "s0 = log_calls
                [Call (FbFilter 0) ''set_f_q<FREQUENCY_FAST>''
                   [AFloat ((20.0 + 100.0 * feedback (parameters s) * feedback (parameters s)) /
                      sample_rate W (s\<lparr>freeze_lp :=
                 ONE_POLE (freeze_lp s) (if freeze (parameters s) then 1.0 else 0.0) 0.0005\<rparr>)), AFloat 1.0],
                 Call (FbFilter 1) ''set'' [AName ''fb_filter_[0]'']]
                 (s\<lparr>freeze_lp :=
                 ONE_POLE (freeze_lp s) (if freeze (parameters s) then 1.0 else 0.0) 0.0005\<rparr>)"
  define a where "a = filter_process W (FbFilter 0) ''FILTER_MODE_HIGH_PASS'' True sz (s0, fb_m s0)"
  define b where "b = filter_process W (FbFilter 1) ''FILTER_MODE_HIGH_PASS'' False sz a"
  have e: "feedback_filter W sz s = (fst b)\<lparr>fb_m := snd b\<rparr>"
    by (simp add: feedback_filter_def Let_def case_prod_unfold b_def a_def s0_def log_calls_def)
  have k0: "keeps s s0" by (auto simp: keeps_def s0_def log_calls_def)
  have k1: "keeps s0 (fst a)"
    using keeps_filter_process [of "(s0, fb_m s0)"] by (simp add: a_def)
  have k2: "keeps (fst a) (fst b)"
    unfolding b_def by (rule keeps_filter_process)
  have k3: "keeps (fst b) ((fst b)\<lparr>fb_m := snd b\<rparr>)" by (simp add: keeps_def)
  from k0 k1 k2 k3 show ?thesis unfolding e by (blast intro: keeps_trans)
qed

lemma keeps_feedback_blend: "keeps s (feedback_blend W g sz s)"
  by (simp add: keeps_def feedback_blend_def)

lemma keeps_apply_feedback: "keeps s (fst (apply_feedback W sz s))"
proof (cases "shared_feedback s")
  case True
  then have "fst (apply_feedback W sz s) =
      feedback_blend W (feedback (parameters s) * (1 - freeze_lp (feedback_filter W sz s))) sz
        (feedback_filter W sz s)"
    by (simp add: apply_feedback_def Let_def)
  with keeps_feedback_filter [of s W sz]
    keeps_feedback_blend [of "feedback_filter W sz s" W] show ?thesis
    by (auto intro: keeps_trans)
next
  case False
  then have "fst (apply_feedback W sz s) =
      feedback_blend W (feedback_amount W s * (1 - freeze_lp s)) sz s"
    by (simp add: apply_feedback_def Let_def)
  with keeps_feedback_blend [of s W] show ?thesis by simp
qed

lemma keeps_PhaseVocoder_Process: "keeps (fst sb) (fst (PhaseVocoder_Process W input n sb))"
  unfolding PhaseVocoder_Process_def by (rule keeps_engine_writes)

text \<open>What the dispatch keeps: everything but, in two modes, the parameters.\<close>

lemma keeps_keeps_mode: "keeps s s' \<Longrightarrow> keeps_mode s s'"
  by (simp add: keeps_def keeps_mode_def)

lemma keeps_mode_trans: "keeps_mode s s' \<Longrightarrow> keeps_mode s' s'' \<Longrightarrow> keeps_mode s s''"
  by (auto simp: keeps_mode_def)

lemma dispatch_keeps_mode: "keeps_mode s (fst (dispatch W input sz (s, buf)))"
proof -
  have G: "keeps_mode s (fst (case_GRANULAR W sz (s, buf)))"
    if "playback_mode s = PLAYBACK_MODE_GRANULAR"
    using that keeps_Play [of "(s\<lparr>parameters := granular_meta (parameters s)\<rparr>, buf)" W Player
        "granular_meta (parameters s)" sz]
    by (auto simp: case_GRANULAR_def Let_def keeps_def keeps_mode_def)
  have S: "keeps_mode s (fst (case_SPECTRAL W input sz (s, buf)))"
    if "playback_mode s = PLAYBACK_MODE_SPECTRAL"
    using that keeps_PhaseVocoder_Process [of "(s\<lparr>parameters := spectral_meta (parameters s)\<rparr>, buf)"
        W input sz]
    by (auto simp: case_SPECTRAL_def keeps_def keeps_mode_def)
  have C: "keeps_mode s (fst (case_SPECTRAL_CLOUD W input sz (s, buf)))"
    using keeps_PhaseVocoder_Process [of "(s, buf)" W input sz]
    by (cases "PhaseVocoder_Process W input sz (s, buf)")
      (auto simp: case_SPECTRAL_CLOUD_def keeps_def keeps_mode_def)
  have O: "keeps_mode s (fst (case_OLIVERB W sz (s, buf)))"
  proof (cases "Play W WsPlayer (oliverb_predelay W s) sz (s, buf)")
    case (Pair s1 buf1)
    with keeps_Play [of "(s, buf)" W WsPlayer "oliverb_predelay W s" sz]
    have k1: "keeps s s1" by simp
    have k2: "keeps s1 (log_calls (oliverb_settings W (parameters s1)) s1)"
      by (rule keeps_log_calls)
    have k3: "keeps (log_calls (oliverb_settings W (parameters s1)) s1)
        (fst (engine_process W Oliverb sz
          (log_calls (oliverb_settings W (parameters s1)) s1, buf1)))"
      using keeps_engine_process
        [of "(log_calls (oliverb_settings W (parameters s1)) s1, buf1)" W Oliverb sz]
      by simp
    have "fst (case_OLIVERB W sz (s, buf)) =
        fst (engine_process W Oliverb sz
          (log_calls (oliverb_settings W (parameters s1)) s1, buf1))"
      by (simp add: case_OLIVERB_def Pair)
    with k1 k2 k3 show ?thesis
      by (auto intro: keeps_trans keeps_keeps_mode)
  qed
  have R: "keeps_mode s (fst (case_RESONESTOR W input sz (s, buf)))"
  proof -
    have k2: "keeps s (log_calls (resonestor_settings (parameters s)) s)"
      by (rule keeps_log_calls)
    have k3: "keeps (log_calls (resonestor_settings (parameters s)) s)
        (fst (engine_process W Resonestor sz
          (log_calls (resonestor_settings (parameters s)) s, blit sz input buf)))"
      using keeps_engine_process
        [of "(log_calls (resonestor_settings (parameters s)) s, blit sz input buf)" W
          Resonestor sz]
      by simp
    have "fst (case_RESONESTOR W input sz (s, buf)) =
        fst (engine_process W Resonestor sz
          (log_calls (resonestor_settings (parameters s)) s, blit sz input buf))"
      by (simp add: case_RESONESTOR_def)
    with k2 k3 show ?thesis
      by (auto intro: keeps_trans keeps_keeps_mode)
  qed
  have P: "keeps_mode s (fst (Play W e (parameters s) sz (s, buf)))" for e
    using keeps_Play [of "(s, buf)" W e "parameters s" sz]
    by (auto intro: keeps_keeps_mode)
  have I: "keeps_mode s s" by (simp add: keeps_mode_def)
  show ?thesis
    unfolding dispatch_def Let_def
    using G S C O R P I by simp
qed

lemma ProcessGranular_keeps_mode:
  assumes "ProcessGranular W input output sz s = Some (s', output')"
  shows "keeps_mode s s'"
proof -
  from assms obtain s1 where
    w: "write_input W input sz s = Some s1" and
    d: "dispatch W input sz (s1, output) = (s', output')"
    by (auto simp: ProcessGranular_def split: option.splits)
  from write_input_frame [OF w] have "keeps s s1" by (auto simp: keeps_def)
  moreover from dispatch_keeps_mode [of s1 W input sz "output"] d
  have "keeps_mode s1 s'" by simp
  ultimately show ?thesis by (blast intro: keeps_mode_trans keeps_keeps_mode)
qed

lemma ProcessGranular_oliverb:
  assumes "playback_mode s = PLAYBACK_MODE_OLIVERB"
    and "ProcessGranular W input output sz s = Some (s', output')"
  shows "Call Oliverb ''set_pitch_shift_amount''
           [AFloat (oliverb_pitch_shift_wet (pitch (parameters s)))] \<in> set (calls s')"
proof -
  from assms(2) obtain s1 where
    w: "write_input W input sz s = Some s1" and
    d: "dispatch W input sz (s1, output) = (s', output')"
    by (auto simp: ProcessGranular_def split: option.splits)
  note f = write_input_frame [OF w]
  from f assms(1) have m: "playback_mode s1 = PLAYBACK_MODE_OLIVERB" by simp
  obtain s2 buf2 where pl: "Play W WsPlayer (oliverb_predelay W s1) sz (s1, output) = (s2, buf2)"
    by (cases "Play W WsPlayer (oliverb_predelay W s1) sz (s1, output)")
  from keeps_Play [of "(s1, output)" W WsPlayer "oliverb_predelay W s1" sz] pl
  have p2: "parameters s2 = parameters s" using f by (simp add: keeps_def)
  define s3 where "s3 = log_calls (oliverb_settings W (parameters s2)) s2"
  have in3: "Call Oliverb ''set_pitch_shift_amount''
           [AFloat (oliverb_pitch_shift_wet (pitch (parameters s)))] \<in> set (calls s3)"
    by (simp add: s3_def log_calls_def oliverb_settings_def p2)
  from d m have "s' = fst (engine_process W Oliverb sz (s3, buf2))"
    by (simp add: dispatch_def Let_def case_OLIVERB_def pl s3_def PLAYBACK_MODE_defs)
  with keeps_engine_process [of "(s3, buf2)" W Oliverb sz] in3 show ?thesis
    by (auto simp: keeps_def)
qed

lemma run_engines_frame:
  assumes "run_engines W sz s = Some s2"
  shows "keeps_mode s s2 \<and>
    (playback_mode s = PLAYBACK_MODE_OLIVERB \<longrightarrow>
       Call Oliverb ''set_pitch_shift_amount''
         [AFloat (oliverb_pitch_shift_wet (pitch (parameters s)))] \<in> set (calls s2))"
proof (cases "low_fidelity s")
  case False
  with assms obtain s' out where
    pg: "ProcessGranular W (in_m s) (out_m s) sz s = Some (s', out)" and
    e: "s2 = s'\<lparr>out_m := out\<rparr>"
    by (auto simp: run_engines_def split: option.splits)
  from ProcessGranular_keeps_mode [OF pg] e have "keeps_mode s s2"
    by (simp add: keeps_mode_def)
  moreover have "Call Oliverb ''set_pitch_shift_amount''
         [AFloat (oliverb_pitch_shift_wet (pitch (parameters s)))] \<in> set (calls s2)"
    if "playback_mode s = PLAYBACK_MODE_OLIVERB"
    using ProcessGranular_oliverb [OF that pg] e by simp
  ultimately show ?thesis by blast
next
  case True
  define n where "n = sz div kDownsamplingFactor W"
  define a where "a = engine_writes W
      (Call SrcDown ''Process'' [AFrames (take sz (in_m s)), AInt (int sz)]) n
      (s, in_downsampled s)"
  define s0 where "s0 = (fst a)\<lparr>in_downsampled := snd a\<rparr>"
  from assms True obtain s' outd where
    pg: "ProcessGranular W (snd a) (out_downsampled (fst a)) n s0 = Some (s', outd)" and
    e: "s2 = (fst (engine_writes W
          (Call SrcUp ''Process'' [AFrames (take n outd), AInt (int n)])
          (n * kDownsamplingFactor W) (s'\<lparr>out_downsampled := outd\<rparr>, out_m s')))
        \<lparr>out_m := snd (engine_writes W
          (Call SrcUp ''Process'' [AFrames (take n outd), AInt (int n)])
          (n * kDownsamplingFactor W) (s'\<lparr>out_downsampled := outd\<rparr>, out_m s'))\<rparr>"
    by (auto simp: run_engines_def Let_def case_prod_unfold n_def a_def s0_def
        split: option.splits)
  have k0: "keeps s s0"
    using keeps_engine_writes [of "(s, in_downsampled s)" W
        "Call SrcDown ''Process'' [AFrames (take sz (in_m s)), AInt (int sz)]" n]
    by (simp add: s0_def a_def keeps_def)
  have k1: "keeps_mode s0 s'" by (rule ProcessGranular_keeps_mode [OF pg])
  have k2: "keeps s' s2"
    using keeps_engine_writes [of "(s'\<lparr>out_downsampled := outd\<rparr>, out_m s')" W
        "Call SrcUp ''Process'' [AFrames (take n outd), AInt (int n)]"
        "n * kDownsamplingFactor W"]
    by (simp add: e keeps_def)
  from k0 k1 k2 have km: "keeps_mode s s2"
    by (blast intro: keeps_mode_trans keeps_keeps_mode)
  have "Call Oliverb ''set_pitch_shift_amount''
         [AFloat (oliverb_pitch_shift_wet (pitch (parameters s)))] \<in> set (calls s2)"
    if m: "playback_mode s = PLAYBACK_MODE_OLIVERB"
  proof -
    from k0 m have "playback_mode s0 = PLAYBACK_MODE_OLIVERB" "parameters s0 = parameters s"
      by (simp_all add: keeps_def)
    with ProcessGranular_oliverb [OF _ pg] k2 show ?thesis
      by (auto simp: keeps_def)
  qed
  with km show ?thesis by blast
qed

lemma run_engines_Some:
  assumes "num_channels s \<le> 2"
  shows "\<exists>s2. run_engines W sz s = Some s2"
proof (cases "low_fidelity s")
  case False
  with ProcessGranular_Some [OF assms, of W "in_m s" "out_m s" sz] show ?thesis
    by (auto simp: run_engines_def)
next
  case True
  define n where "n = sz div kDownsamplingFactor W"
  define a where "a = engine_writes W
      (Call SrcDown ''Process'' [AFrames (take sz (in_m s)), AInt (int sz)]) n
      (s, in_downsampled s)"
  define s0 where "s0 = (fst a)\<lparr>in_downsampled := snd a\<rparr>"
  have "keeps s s0"
    using keeps_engine_writes [of "(s, in_downsampled s)" W
        "Call SrcDown ''Process'' [AFrames (take sz (in_m s)), AInt (int sz)]" n]
    by (simp add: s0_def a_def keeps_def)
  with assms have "num_channels s0 \<le> 2" by (simp add: keeps_def)
  from ProcessGranular_Some [OF this, of W "snd a" "out_downsampled (fst a)" n]
  show ?thesis
    using True
    by (auto simp: run_engines_def Let_def case_prod_unfold n_def a_def s0_def)
qed

lemma keeps_diffusion: "keeps s (diffusion W sz s)"
  unfolding diffusion_def Let_def
  by (auto intro: keeps_refl keeps_trans [OF keeps_log_calls keeps_on_out])

lemma pitch_shift_calls:
  assumes "playback_mode s = PLAYBACK_MODE_LOOPING_DELAY"
    and "\<not> freeze (parameters s) \<or> flag_of W (Call Looper ''synchronized'' []) s"
  shows "calls (pitch_shift W sz s) = calls s @
     [Call PitchShifter ''set_ratio'' [AFloat (SemitonesToRatio W (pitch (parameters s)))],
      Call PitchShifter ''set_size'' [AFloat (size_p (parameters s))],
      Call PitchShifter ''set_dry_wet''
        [AFloat (looper_pitch_shift_wet (pitch (parameters s)))],
      Call PitchShifter ''Process'' [AFrames (take sz (out_m s)), AInt (int sz)]]"
  using assms
  by (simp add: pitch_shift_def Let_def on_out_def case_prod_unfold engine_process_calls
      log_calls_def PLAYBACK_MODE_defs)

lemma keeps_pitch_shift: "keeps s (pitch_shift W sz s)"
  unfolding pitch_shift_def Let_def
  by (auto intro: keeps_refl keeps_trans [OF keeps_log_calls keeps_on_out]
      keeps_trans [OF keeps_log_calls keeps_trans [OF keeps_log_calls keeps_on_out]])

lemma keeps_apply_reverb: "keeps s (apply_reverb W fb sz s)"
  unfolding apply_reverb_def Let_def
  by (rule keeps_trans [OF keeps_log_calls keeps_on_out])

lemma keeps_feedback_snapshot: "keeps s (feedback_snapshot sz s)"
  by (simp add: keeps_def feedback_snapshot_def)

lemma keeps_mute_output: "keeps s (mute_output sz s)"
  by (simp add: keeps_def mute_output_def case_prod_unfold)

lemma keeps_crossfade: "keeps s (crossfade W input a b sz s)"
  by (simp add: keeps_def crossfade_def case_prod_unfold)

lemma keeps_distort: "keeps s (distort W sz s)"
  by (simp add: keeps_def distort_def)

lemma keeps_out: "keeps s t \<Longrightarrow> keeps s (t\<lparr>out_m := x\<rparr>)"
  by (simp add: keeps_def)

lemma keeps_fp: "keeps s (fst sb) \<Longrightarrow> keeps s (fst (filter_process W e fm left sz sb))"
  by (rule keeps_trans [OF _ keeps_filter_process])

lemma keeps_lc: "keeps s t \<Longrightarrow> keeps s (log_calls cs t)"
  by (rule keeps_trans [OF _ keeps_log_calls])

lemma keeps_pair: "keeps s a \<Longrightarrow> keeps s (fst (a, b))"
  by simp

lemma keeps_apply_filters: "keeps s (apply_filters W sz s)"
proof (cases "playback_mode s = PLAYBACK_MODE_LOOPING_DELAY \<or>
    playback_mode s = PLAYBACK_MODE_STRETCH")
  case False
  then show ?thesis by (simp add: apply_filters_def keeps_refl)
next
  case True
  show ?thesis
    unfolding apply_filters_def Let_def if_P [OF True] fst_conv snd_conv
    by (intro keeps_out keeps_fp keeps_lc keeps_pair keeps_refl)
qed

lemma Process_run:
  assumes "\<not> bypass s" and "\<not> silence s" and "\<not> reset_buffers s"
    and "previous_playback_mode s = playback_mode s"
    and "Process W input output sz s = Some (s', output')"
  shows "\<exists>s1 s2. keeps s s1 \<and> run_engines W sz s1 = Some s2 \<and>
           keeps (pitch_shift W sz (diffusion W sz s2)) s'"
proof -
  define s1 where
    "s1 = fst (apply_feedback W sz (mixdown sz (mute_input sz (convert_input input sz s))))"
  define fb where
    "fb = snd (apply_feedback W sz (mixdown sz (mute_input sz (convert_input input sz s))))"
  have k1: "keeps s s1"
    unfolding s1_def by (rule keeps_trans [OF keeps_pre keeps_apply_feedback])
  have bounds: "sz \<le> length input \<and> sz \<le> length output \<and> sz \<le> length (in_m s) \<and>
                 sz \<le> length (out_m s) \<and> sz \<le> length (fb_m s)"
  proof (rule ccontr)
    assume "\<not> ?thesis"
    with assms(1-4) have "Process W input output sz s = None"
      by (simp add: Process_def)
    with assms(5) show False by simp
  qed
  obtain s2 where r: "run_engines W sz s1 = Some s2"
  proof (cases "run_engines W sz s1")
    case None
    with assms(1-4) bounds have "Process W input output sz s = None"
      by (simp add: Process_def Let_def s1_def)
    with assms(5) show ?thesis by simp
  next
    case (Some a)
    with that show ?thesis by blast
  qed
  define p where "p = pitch_shift W sz (diffusion W sz s2)"
  define s3 where "s3 = feedback_snapshot sz (apply_filters W sz p)"
  define s4 where "s4 = mute_output sz s3"
  define s5 where "s5 = (if \<not> reverb_dry_signal s4 \<and> reverb_modes s4
                  then apply_reverb W fb sz s4 else s4)"
  define s6 where "s6 = crossfade W input (mute_in_fade s) (mute_out_fade s3) sz s5"
  define s7 where "s7 = (if reverb_dry_signal s6 \<and> reverb_modes s6
            then apply_reverb W fb sz s6 else s6)"
  have "Process W input output sz s =
      Some (distort W sz s7, convert_output W sz (distort W sz s7) output)"
    using assms(1-4) bounds r [unfolded s1_def]
    unfolding Process_def Let_def s7_def s6_def s5_def s4_def s3_def p_def fb_def
    by (simp split del: if_split)
  with assms(5) have e': "s' = distort W sz s7" by simp
  have "keeps p s3"
    unfolding s3_def by (rule keeps_trans [OF keeps_apply_filters keeps_feedback_snapshot])
  moreover have "keeps s3 s4" unfolding s4_def by (rule keeps_mute_output)
  moreover have "keeps s4 s5" unfolding s5_def by (simp add: keeps_refl keeps_apply_reverb)
  moreover have "keeps s5 s6" unfolding s6_def by (rule keeps_crossfade)
  moreover have "keeps s6 s7" unfolding s7_def by (simp add: keeps_refl keeps_apply_reverb)
  moreover have "keeps s7 s'" unfolding e' by (rule keeps_distort)
  ultimately have "keeps p s'" by (blast intro: keeps_trans)
  with k1 r show ?thesis unfolding p_def by blast
qed

lemma Process_Some:
  assumes "\<not> bypass s" and "\<not> silence s" and "\<not> reset_buffers s"
    and "previous_playback_mode s = playback_mode s"
    and "sz \<le> length input" and "sz \<le> length output" and "sz \<le> length (in_m s)"
    and "sz \<le> length (out_m s)" and "sz \<le> length (fb_m s)"
    and "num_channels s \<le> 2"
  shows "\<exists>s' output'. Process W input output sz s = Some (s', output')"
proof -
  define s1 where
    "s1 = fst (apply_feedback W sz (mixdown sz (mute_input sz (convert_input input sz s))))"
  have "keeps s s1"
    unfolding s1_def by (rule keeps_trans [OF keeps_pre keeps_apply_feedback])
  with assms(10) have "num_channels s1 \<le> 2" by (simp add: keeps_def)
  from run_engines_Some [OF this, of W sz] obtain s2 where
    "run_engines W sz s1 = Some s2" by blast
  with assms show ?thesis
    by (simp add: Process_def Let_def s1_def)
qed

lemma Process_looper:
  assumes "playback_mode s = PLAYBACK_MODE_LOOPING_DELAY" and "\<not> freeze (parameters s)"
    and "\<not> bypass s" and "\<not> silence s" and "\<not> reset_buffers s"
    and "previous_playback_mode s = playback_mode s"
    and "Process W input output sz s = Some (s', output')"
  shows "Call PitchShifter ''set_dry_wet''
           [AFloat (looper_pitch_shift_wet (pitch (parameters s)))] \<in> set (calls s')"
proof -
  from Process_run [OF assms(3-7)] obtain s1 s2 where
    k1: "keeps s s1" and r: "run_engines W sz s1 = Some s2" and
    k3: "keeps (pitch_shift W sz (diffusion W sz s2)) s'"
    by blast
  from run_engines_frame [OF r] have k2: "keeps_mode s1 s2" by simp
  from k1 assms(1) have m1: "playback_mode s1 = PLAYBACK_MODE_LOOPING_DELAY"
    "parameters s1 = parameters s"
    by (simp_all add: keeps_def)
  with k2 have m2: "playback_mode s2 = PLAYBACK_MODE_LOOPING_DELAY"
    "parameters s2 = parameters s"
    by (simp_all add: keeps_mode_def PLAYBACK_MODE_defs)
  with keeps_diffusion [of s2 W sz]
  have md: "playback_mode (diffusion W sz s2) = PLAYBACK_MODE_LOOPING_DELAY"
    "parameters (diffusion W sz s2) = parameters s"
    by (simp_all add: keeps_def)
  from md assms(2)
  have "\<not> freeze (parameters (diffusion W sz s2)) \<or>
      flag_of W (Call Looper ''synchronized'' []) (diffusion W sz s2)"
    by simp
  from pitch_shift_calls [OF md(1) this, of sz] md(2)
  have "Call PitchShifter ''set_dry_wet''
           [AFloat (looper_pitch_shift_wet (pitch (parameters s)))]
         \<in> set (calls (pitch_shift W sz (diffusion W sz s2)))"
    by simp
  with k3 show ?thesis by (auto simp: keeps_def)
qed

lemma Process_oliverb:
  assumes "playback_mode s = PLAYBACK_MODE_OLIVERB"
    and "\<not> bypass s" and "\<not> silence s" and "\<not> reset_buffers s"
    and "previous_playback_mode s = playback_mode s"
    and "Process W input output sz s = Some (s', output')"
  shows "Call Oliverb ''set_pitch_shift_amount''
           [AFloat (oliverb_pitch_shift_wet (pitch (parameters s)))] \<in> set (calls s')"
proof -
  from Process_run [OF assms(2-6)] obtain s1 s2 where
    k1: "keeps s s1" and r: "run_engines W sz s1 = Some s2" and
    k3: "keeps (pitch_shift W sz (diffusion W sz s2)) s'"
    by blast
  from k1 assms(1) have m1: "playback_mode s1 = PLAYBACK_MODE_OLIVERB"
    "parameters s1 = parameters s"
    by (simp_all add: keeps_def)
  with run_engines_frame [OF r]
  have "Call Oliverb ''set_pitch_shift_amount''
           [AFloat (oliverb_pitch_shift_wet (pitch (parameters s)))] \<in> set (calls s2)"
    by simp
  moreover have "keeps s2 (pitch_shift W sz (diffusion W sz s2))"
    by (rule keeps_trans [OF keeps_diffusion keeps_pitch_shift])
  ultimately show ?thesis using k3 by (auto simp: keeps_def)
qed

lemma bench_arrays:
  "length (in_m bench) = 4" "length (out_m bench) = 4" "length (fb_m bench) = 4"
  by (simp_all add: bench_def Init_def ResetFilters_def log_calls_def zero_processor_def)

text \<open>
  C6. The wet amount computed for the OLIVERB reverb is 1 for a pitch of at most -0.7,
  0 for a pitch between -0.3 and 0.3, linear on the two bands in between, and 1 for a
  pitch of at least 0.7; the amount computed for the pitch shifter of the looping delay is
  the same function. Both call sites pass it on: the OLIVERB settings hold the call
  \<^verbatim>\<open>set_pitch_shift_amount\<close> with this amount of the pitch parameter, and every run of
  \<^verbatim>\<open>ProcessGranular\<close> in the OLIVERB mode logs it; the pitch-shift stage of
  \<^verbatim>\<open>Process\<close> in the looping delay, when not frozen or when the looper is synchronized,
  adds exactly \<^verbatim>\<open>set_ratio\<close>, \<^verbatim>\<open>set_size\<close>, \<^verbatim>\<open>set_dry_wet\<close> with this amount of the pitch
  parameter and \<^verbatim>\<open>Process\<close> on the output block, and does nothing when frozen and not
  synchronized; and every block that \<^verbatim>\<open>Process\<close> takes through the engines logs the
  OLIVERB call in the OLIVERB mode and the \<^verbatim>\<open>set_dry_wet\<close> call in the unfrozen looping
  delay. Such runs exist: \<^verbatim>\<open>ProcessGranular\<close> returns for one or two channels, and
  \<^verbatim>\<open>Process\<close> returns on its engine path when the block fits the arrays.
\<close>

theorem pitch_shift_trapezoid:
  "(x \<le> - 0.7 \<longrightarrow> oliverb_pitch_shift_wet x = 1.0) \<and>
   (- 0.3 \<le> x \<and> x \<le> 0.3 \<longrightarrow> oliverb_pitch_shift_wet x = 0.0) \<and>
   (- 0.7 < x \<and> x < - 0.3 \<longrightarrow> oliverb_pitch_shift_wet x = 1.0 - (x + 0.7) / 0.4) \<and>
   (0.3 < x \<and> x < 0.7 \<longrightarrow> oliverb_pitch_shift_wet x = 1.0 + (x - 0.7) / 0.4) \<and>
   (0.7 \<le> x \<longrightarrow> oliverb_pitch_shift_wet x = 1.0) \<and>
   looper_pitch_shift_wet x = oliverb_pitch_shift_wet x \<and>
   Call Oliverb ''set_pitch_shift_amount'' [AFloat (oliverb_pitch_shift_wet (pitch q))]
     \<in> set (oliverb_settings W q) \<and>
   (playback_mode s = PLAYBACK_MODE_OLIVERB \<longrightarrow>
      (\<forall>s' fout'. ProcessGranular W fin fout n s = Some (s', fout') \<longrightarrow>
         Call Oliverb ''set_pitch_shift_amount''
           [AFloat (oliverb_pitch_shift_wet (pitch (parameters s)))] \<in> set (calls s'))) \<and>
   (playback_mode s = PLAYBACK_MODE_LOOPING_DELAY \<and>
    (\<not> freeze (parameters s) \<or> flag_of W (Call Looper ''synchronized'' []) s) \<longrightarrow>
      calls (pitch_shift W sz s) = calls s @
        [Call PitchShifter ''set_ratio'' [AFloat (SemitonesToRatio W (pitch (parameters s)))],
         Call PitchShifter ''set_size'' [AFloat (size_p (parameters s))],
         Call PitchShifter ''set_dry_wet''
           [AFloat (looper_pitch_shift_wet (pitch (parameters s)))],
         Call PitchShifter ''Process'' [AFrames (take sz (out_m s)), AInt (int sz)]]) \<and>
   (playback_mode s = PLAYBACK_MODE_LOOPING_DELAY \<and> freeze (parameters s) \<and>
    \<not> flag_of W (Call Looper ''synchronized'' []) s \<longrightarrow> pitch_shift W sz s = s) \<and>
   (\<not> bypass s \<and> \<not> silence s \<and> \<not> reset_buffers s \<and>
    previous_playback_mode s = playback_mode s \<longrightarrow>
      (\<forall>s' out'. Process W input out sz s = Some (s', out') \<longrightarrow>
         (playback_mode s = PLAYBACK_MODE_OLIVERB \<longrightarrow>
            Call Oliverb ''set_pitch_shift_amount''
              [AFloat (oliverb_pitch_shift_wet (pitch (parameters s)))] \<in> set (calls s')) \<and>
         (playback_mode s = PLAYBACK_MODE_LOOPING_DELAY \<and> \<not> freeze (parameters s) \<longrightarrow>
            Call PitchShifter ''set_dry_wet''
              [AFloat (looper_pitch_shift_wet (pitch (parameters s)))] \<in> set (calls s')))) \<and>
   (num_channels s \<le> 2 \<longrightarrow>
      (\<exists>s' fout'. ProcessGranular W fin fout n s = Some (s', fout'))) \<and>
   (\<not> bypass s \<and> \<not> silence s \<and> \<not> reset_buffers s \<and>
    previous_playback_mode s = playback_mode s \<and> num_channels s \<le> 2 \<and>
    sz \<le> length input \<and> sz \<le> length out \<and> sz \<le> length (in_m s) \<and>
    sz \<le> length (out_m s) \<and> sz \<le> length (fb_m s) \<longrightarrow>
      (\<exists>s' out'. Process W input out sz s = Some (s', out')))"
proof -
  have a: "(x \<le> - 0.7 \<longrightarrow> oliverb_pitch_shift_wet x = 1.0) \<and>
   (- 0.3 \<le> x \<and> x \<le> 0.3 \<longrightarrow> oliverb_pitch_shift_wet x = 0.0) \<and>
   (- 0.7 < x \<and> x < - 0.3 \<longrightarrow> oliverb_pitch_shift_wet x = 1.0 - (x + 0.7) / 0.4) \<and>
   (0.3 < x \<and> x < 0.7 \<longrightarrow> oliverb_pitch_shift_wet x = 1.0 + (x - 0.7) / 0.4) \<and>
   (0.7 \<le> x \<longrightarrow> oliverb_pitch_shift_wet x = 1.0) \<and>
   looper_pitch_shift_wet x = oliverb_pitch_shift_wet x \<and>
   Call Oliverb ''set_pitch_shift_amount'' [AFloat (oliverb_pitch_shift_wet (pitch q))]
     \<in> set (oliverb_settings W q)"
    by (auto simp: oliverb_pitch_shift_wet_def looper_pitch_shift_wet_def
        oliverb_settings_def Let_def field_simps)
  have b: "playback_mode s = PLAYBACK_MODE_OLIVERB \<longrightarrow>
      (\<forall>s' fout'. ProcessGranular W fin fout n s = Some (s', fout') \<longrightarrow>
         Call Oliverb ''set_pitch_shift_amount''
           [AFloat (oliverb_pitch_shift_wet (pitch (parameters s)))] \<in> set (calls s'))"
    using ProcessGranular_oliverb by blast
  have c: "playback_mode s = PLAYBACK_MODE_LOOPING_DELAY \<and>
    (\<not> freeze (parameters s) \<or> flag_of W (Call Looper ''synchronized'' []) s) \<longrightarrow>
      calls (pitch_shift W sz s) = calls s @
        [Call PitchShifter ''set_ratio'' [AFloat (SemitonesToRatio W (pitch (parameters s)))],
         Call PitchShifter ''set_size'' [AFloat (size_p (parameters s))],
         Call PitchShifter ''set_dry_wet''
           [AFloat (looper_pitch_shift_wet (pitch (parameters s)))],
         Call PitchShifter ''Process'' [AFrames (take sz (out_m s)), AInt (int sz)]]"
    using pitch_shift_calls by blast
  have d: "playback_mode s = PLAYBACK_MODE_LOOPING_DELAY \<and> freeze (parameters s) \<and>
    \<not> flag_of W (Call Looper ''synchronized'' []) s \<longrightarrow> pitch_shift W sz s = s"
    by (simp add: pitch_shift_def PLAYBACK_MODE_defs)
  have e: "\<not> bypass s \<and> \<not> silence s \<and> \<not> reset_buffers s \<and>
    previous_playback_mode s = playback_mode s \<longrightarrow>
      (\<forall>s' out'. Process W input out sz s = Some (s', out') \<longrightarrow>
         (playback_mode s = PLAYBACK_MODE_OLIVERB \<longrightarrow>
            Call Oliverb ''set_pitch_shift_amount''
              [AFloat (oliverb_pitch_shift_wet (pitch (parameters s)))] \<in> set (calls s')) \<and>
         (playback_mode s = PLAYBACK_MODE_LOOPING_DELAY \<and> \<not> freeze (parameters s) \<longrightarrow>
            Call PitchShifter ''set_dry_wet''
              [AFloat (looper_pitch_shift_wet (pitch (parameters s)))] \<in> set (calls s')))"
    using Process_oliverb Process_looper by blast
  have f: "num_channels s \<le> 2 \<longrightarrow>
      (\<exists>s' fout'. ProcessGranular W fin fout n s = Some (s', fout'))"
    using ProcessGranular_Some by blast
  have g: "\<not> bypass s \<and> \<not> silence s \<and> \<not> reset_buffers s \<and>
    previous_playback_mode s = playback_mode s \<and> num_channels s \<le> 2 \<and>
    sz \<le> length input \<and> sz \<le> length out \<and> sz \<le> length (in_m s) \<and>
    sz \<le> length (out_m s) \<and> sz \<le> length (fb_m s) \<longrightarrow>
      (\<exists>s' out'. Process W input out sz s = Some (s', out'))"
    using Process_Some by blast
  show ?thesis by (intro conjI a [THEN conjunct1] a [THEN conjunct2, THEN conjunct1]
        a [THEN conjunct2, THEN conjunct2, THEN conjunct1]
        a [THEN conjunct2, THEN conjunct2, THEN conjunct2, THEN conjunct1]
        a [THEN conjunct2, THEN conjunct2, THEN conjunct2, THEN conjunct2, THEN conjunct1]
        a [THEN conjunct2, THEN conjunct2, THEN conjunct2, THEN conjunct2, THEN conjunct2,
           THEN conjunct1]
        a [THEN conjunct2, THEN conjunct2, THEN conjunct2, THEN conjunct2, THEN conjunct2,
           THEN conjunct2]
        b c d e f g)
qed

theorem pitch_shift_trapezoid_witness:
  "oliverb_pitch_shift_wet (- 0.7) = 1 \<and> oliverb_pitch_shift_wet (- 0.3) = 0 \<and>
   oliverb_pitch_shift_wet 0.3 = 0 \<and> oliverb_pitch_shift_wet 0.7 = 1 \<and>
   oliverb_pitch_shift_wet (- 0.5) = 1 / 2 \<and> oliverb_pitch_shift_wet 0.5 = 1 / 2 \<and>
   looper_pitch_shift_wet 0.5 = 1 / 2 \<and>
   (\<exists>s' output'.
      Process quiet_world (replicate 4 \<lparr>l = 0, r = 0\<rparr>) (replicate 4 \<lparr>l = 0, r = 0\<rparr>) 2
        looper_bench = Some (s', output') \<and>
      Call PitchShifter ''set_dry_wet'' [AFloat (1 / 2)] \<in> set (calls s')) \<and>
   (\<exists>s' output'.
      Process quiet_world (replicate 4 \<lparr>l = 0, r = 0\<rparr>) (replicate 4 \<lparr>l = 0, r = 0\<rparr>) 2
        oliverb_bench = Some (s', output') \<and>
      Call Oliverb ''set_pitch_shift_amount'' [AFloat (1 / 2)] \<in> set (calls s')) \<and>
   (\<exists>s' fout'.
      ProcessGranular quiet_world [] [] 0 oliverb_bench = Some (s', fout') \<and>
      Call Oliverb ''set_pitch_shift_amount'' [AFloat (1 / 2)] \<in> set (calls s')) \<and>
   calls (pitch_shift quiet_world 2 looper_bench) = calls looper_bench @
     [Call PitchShifter ''set_ratio'' [AFloat 1], Call PitchShifter ''set_size'' [AFloat 0],
      Call PitchShifter ''set_dry_wet'' [AFloat (1 / 2)],
      Call PitchShifter ''Process''
        [AFrames (replicate 2 \<lparr>l = 0, r = 0\<rparr>), AInt 2]]"
proof -
  let ?z = "replicate 4 \<lparr>l = 0, r = 0\<rparr> :: ShortFrame list"
  have lf: "playback_mode looper_bench = PLAYBACK_MODE_LOOPING_DELAY"
    "previous_playback_mode looper_bench = PLAYBACK_MODE_LOOPING_DELAY"
    "\<not> bypass looper_bench" "\<not> silence looper_bench" "\<not> reset_buffers looper_bench"
    "num_channels looper_bench = 2" "\<not> freeze (parameters looper_bench)"
    "pitch (parameters looper_bench) = 1 / 2" "size_p (parameters looper_bench) = 0"
    "length (in_m looper_bench) = 4" "length (out_m looper_bench) = 4"
    "length (fb_m looper_bench) = 4"
    by (simp_all add: looper_bench_def bench_fields bench_arrays zero_parameters_def)
  have ovf: "playback_mode oliverb_bench = PLAYBACK_MODE_OLIVERB"
    "previous_playback_mode oliverb_bench = PLAYBACK_MODE_OLIVERB"
    "\<not> bypass oliverb_bench" "\<not> silence oliverb_bench" "\<not> reset_buffers oliverb_bench"
    "num_channels oliverb_bench = 2"
    "pitch (parameters oliverb_bench) = - 1 / 2"
    "length (in_m oliverb_bench) = 4" "length (out_m oliverb_bench) = 4"
    "length (fb_m oliverb_bench) = 4"
    by (simp_all add: oliverb_bench_def bench_fields bench_arrays zero_parameters_def)
  have om: "out_m looper_bench = replicate 4 \<lparr>l = 0, r = 0\<rparr>"
    by (simp add: looper_bench_def bench_def Init_def ResetFilters_def log_calls_def
        zero_processor_def)
  obtain s1 o1 where
    r1: "Process quiet_world ?z ?z 2 looper_bench = Some (s1, o1)"
    using pitch_shift_trapezoid [where s = looper_bench and W = quiet_world and
        input = ?z and out = ?z and sz = 2 and fin = "[]" and fout = "[]" and n = 0 and
        x = 0 and q = zero_parameters] lf by auto
  obtain s2 o2 where
    r2: "Process quiet_world ?z ?z 2 oliverb_bench = Some (s2, o2)"
    using pitch_shift_trapezoid [where s = oliverb_bench and W = quiet_world and
        input = ?z and out = ?z and sz = 2 and fin = "[]" and fout = "[]" and n = 0 and
        x = 0 and q = zero_parameters] ovf by auto
  obtain s3 o3 where
    r3: "ProcessGranular quiet_world [] [] 0 oliverb_bench = Some (s3, o3)"
    using pitch_shift_trapezoid [where s = oliverb_bench and W = quiet_world and
        input = ?z and out = ?z and sz = 2 and fin = "[]" and fout = "[]" and n = 0 and
        x = 0 and q = zero_parameters] ovf by auto
  have p1: "Call PitchShifter ''set_dry_wet'' [AFloat (1 / 2)] \<in> set (calls s1)"
    using pitch_shift_trapezoid [where s = looper_bench and W = quiet_world and
        input = ?z and out = ?z and sz = 2 and fin = "[]" and fout = "[]" and n = 0 and
        x = 0 and q = zero_parameters] lf r1
    by (simp add: looper_pitch_shift_wet_def oliverb_pitch_shift_wet_def Let_def)
  have p2: "Call Oliverb ''set_pitch_shift_amount'' [AFloat (1 / 2)] \<in> set (calls s2)"
    using pitch_shift_trapezoid [where s = oliverb_bench and W = quiet_world and
        input = ?z and out = ?z and sz = 2 and fin = "[]" and fout = "[]" and n = 0 and
        x = 0 and q = zero_parameters] ovf r2
    by (simp add: looper_pitch_shift_wet_def oliverb_pitch_shift_wet_def Let_def)
  have p3: "Call Oliverb ''set_pitch_shift_amount'' [AFloat (1 / 2)] \<in> set (calls s3)"
    using pitch_shift_trapezoid [where s = oliverb_bench and W = quiet_world and
        input = ?z and out = ?z and sz = 2 and fin = "[]" and fout = "[]" and n = 0 and
        x = 0 and q = zero_parameters] ovf r3
    by (simp add: looper_pitch_shift_wet_def oliverb_pitch_shift_wet_def Let_def)
  have p4: "calls (pitch_shift quiet_world 2 looper_bench) = calls looper_bench @
     [Call PitchShifter ''set_ratio'' [AFloat 1], Call PitchShifter ''set_size'' [AFloat 0],
      Call PitchShifter ''set_dry_wet'' [AFloat (1 / 2)],
      Call PitchShifter ''Process''
        [AFrames (replicate 2 \<lparr>l = 0, r = 0\<rparr>), AInt 2]]"
    using pitch_shift_trapezoid [where s = looper_bench and W = quiet_world and
        input = ?z and out = ?z and sz = 2 and fin = "[]" and fout = "[]" and n = 0 and
        x = 0 and q = zero_parameters] lf om
    by (simp add: quiet_world_def looper_pitch_shift_wet_def oliverb_pitch_shift_wet_def Let_def)
  have b: "oliverb_pitch_shift_wet (- 0.7) = 1 \<and> oliverb_pitch_shift_wet (- 0.3) = 0 \<and>
   oliverb_pitch_shift_wet 0.3 = 0 \<and> oliverb_pitch_shift_wet 0.7 = 1 \<and>
   oliverb_pitch_shift_wet (- 0.5) = 1 / 2 \<and> oliverb_pitch_shift_wet 0.5 = 1 / 2 \<and>
   looper_pitch_shift_wet 0.5 = 1 / 2"
    using pitch_shift_trapezoid [where s = bench and W = quiet_world and
          input = ?z and out = ?z and sz = 2 and fin = "[]" and fout = "[]" and n = 0 and
          x = "- 0.7" and q = zero_parameters]
      pitch_shift_trapezoid [where s = bench and W = quiet_world and
          input = ?z and out = ?z and sz = 2 and fin = "[]" and fout = "[]" and n = 0 and
          x = "- 0.3" and q = zero_parameters]
      pitch_shift_trapezoid [where s = bench and W = quiet_world and
          input = ?z and out = ?z and sz = 2 and fin = "[]" and fout = "[]" and n = 0 and
          x = "0.3" and q = zero_parameters]
      pitch_shift_trapezoid [where s = bench and W = quiet_world and
          input = ?z and out = ?z and sz = 2 and fin = "[]" and fout = "[]" and n = 0 and
          x = "0.7" and q = zero_parameters]
      pitch_shift_trapezoid [where s = bench and W = quiet_world and
          input = ?z and out = ?z and sz = 2 and fin = "[]" and fout = "[]" and n = 0 and
          x = "- 0.5" and q = zero_parameters]
      pitch_shift_trapezoid [where s = bench and W = quiet_world and
          input = ?z and out = ?z and sz = 2 and fin = "[]" and fout = "[]" and n = 0 and
          x = "0.5" and q = zero_parameters]
    by simp
  from b r1 p1 r2 p2 r3 p3 p4 show ?thesis by blast
qed

end
